theory Spec2Isabelle
  imports Main "HOL-Library.Sublist"
begin

section \<open>Values of the JavaScript runtime\<close>

text \<open>
  The repository is TypeScript running on Node. Three variants of the upload Lambda are
  under \<^verbatim>\<open>src/\<close>:
  \<^item> \<^verbatim>\<open>src/src/types.ts\<close> lines 65-257: the buffering variant (reads the whole object
    into a buffer, one PUT, plain \<^verbatim>\<open>fetch\<close>) together with the metadata operations;
  \<^item> \<^verbatim>\<open>src/src/types.ts\<close> lines 259-437: the chunked variant (\<^verbatim>\<open>uploadLargeFileToZenodo\<close>);
  \<^item> \<^verbatim>\<open>src/aws-lambda/src/index.ts\<close>: the streaming variant with size verification.

  An exception (a rejected promise) is a value of type \<open>error\<close>; a computation that may
  throw returns \<open>error + 'a\<close>, with \<open>Inl\<close> the thrown error. Every thrown value in the
  source is an \<^verbatim>\<open>Error\<close> object; the constructors tell apart who threw it.
\<close>

datatype error =
    Error string        \<comment> \<open>\<^verbatim>\<open>throw new Error(msg)\<close> in the source\<close>
  | TypeError string    \<comment> \<open>the runtime: a property read on \<^verbatim>\<open>undefined\<close> or \<^verbatim>\<open>null\<close>\<close>
  | LibraryError string \<comment> \<open>a library call that rejects: \<^verbatim>\<open>fetch\<close>, the S3 client, \<^verbatim>\<open>res.json()\<close>, a stream\<close>

fun message :: "error \<Rightarrow> string" where
  "message (Error m) = m"
| "message (TypeError m) = m"
| "message (LibraryError m) = m"

text \<open>The outcome of awaiting a promise of a library call.\<close>

datatype 'a outcome = Rejects error | Resolves 'a

text \<open>
  Numbers are the integers the code handles (byte counts and offsets, exact in a double
  below \<open>2 ^ 53\<close>); \<^verbatim>\<open>NaN\<close>, which \<^verbatim>\<open>parseInt\<close> can return, is \<open>None\<close> of \<open>int option\<close>.
  \<^verbatim>\<open>Number.prototype.toString\<close> on an integer is its decimal numeral.
\<close>

definition digit_char :: "nat \<Rightarrow> char" where
  "digit_char d = ''0123456789'' ! d"

fun digits :: "nat \<Rightarrow> string" where
  "digits n = (if n < 10 then [digit_char n] else digits (n div 10) @ [digit_char (n mod 10)])"

declare digits.simps [simp del]

definition toString :: "int \<Rightarrow> string" where
  "toString i = (if i < 0 then CHR ''-'' # digits (nat (- i)) else digits (nat i))"

text \<open>A number or \<^verbatim>\<open>NaN\<close> inside a template literal.\<close>

definition toString_number :: "int option \<Rightarrow> string" where
  "toString_number n = (case n of None \<Rightarrow> ''NaN'' | Some i \<Rightarrow> toString i)"

text \<open>A string or \<^verbatim>\<open>undefined\<close> inside a template literal or a string concatenation.\<close>

definition template :: "string option \<Rightarrow> string" where
  "template v = (case v of None \<Rightarrow> ''undefined'' | Some s \<Rightarrow> s)"

section \<open>The network, the object store and the trace of calls\<close>

type_synonym buffer = "char list"

text \<open>
  A \<^verbatim>\<open>Readable\<close>: the chunks it yields and, when reading it fails, the error it raises.
\<close>

record readable =
  chunks :: "buffer list"
  failure :: "error option"

text \<open>
  The JSON of a deposition as the code reads it: \<^verbatim>\<open>id\<close>, \<^verbatim>\<open>links.bucket\<close> and
  \<^verbatim>\<open>links.html\<close>. A missing property is \<open>None\<close>; \<^verbatim>\<open>res.json()\<close> may also yield
  \<^verbatim>\<open>null\<close> (\<open>None\<close> of \<open>deposition option\<close>) or reject.
\<close>

record deposition_links =
  bucket :: "string option"
  html :: "string option"

record deposition =
  dep_id :: "int option"
  links :: "deposition_links option"

record response =
  status :: int
  statusText :: string
  headers_get :: "string \<Rightarrow> string option"
  json :: "error + deposition option"

text \<open>\<^verbatim>\<open>Response.ok\<close>: the status is in the range 200-299.\<close>

definition ok :: "response \<Rightarrow> bool" where
  "ok r = (200 \<le> status r \<and> status r < 300)"

text \<open>
  A JSON value: \<^verbatim>\<open>JSON.stringify(v)\<close> as a request body is the value \<open>v\<close> itself.
\<close>

datatype json_value =
    JString string
  | JArray "json_value list"
  | JObject "(string \<times> json_value) list"

datatype body_init = StreamBody readable | BufferBody buffer | JsonBody json_value

record request_init =
  "method" :: "string option"
  headers :: "(string \<times> string) list"
  body :: "body_init option"
  timeout :: "int option"

record get_object_command =
  Bucket :: string
  Key :: string
  Range :: "string option"

datatype s3_body = Readable readable | NotReadable

record get_object_output =
  Body :: s3_body
  ContentLength :: "int option"

text \<open>
  The calls that leave the process, in the order they are made: \<^verbatim>\<open>s3Client.send\<close>,
  \<^verbatim>\<open>fetch\<close> and the timer of the retry delay. Console output is not modelled.
\<close>

datatype event =
    S3Send get_object_command
  | Fetch string request_init
  | SetTimeout int

record state =
  fetches :: nat       \<comment> \<open>calls of \<^verbatim>\<open>fetch\<close> so far\<close>
  sends :: nat         \<comment> \<open>calls of \<^verbatim>\<open>s3Client.send\<close> so far\<close>
  trace :: "event list"

text \<open>
  The world outside the process: what the \<open>n\<close>-th call of \<^verbatim>\<open>fetch\<close> and of
  \<^verbatim>\<open>s3Client.send\<close> resolves or rejects with, the environment variables, and the
  platform's URI functions (taken as parameters: they are not code of this repository;
  \<^verbatim>\<open>decodeURIComponent\<close> throws on a malformed escape).
\<close>

record world =
  fetch_outcome :: "nat \<Rightarrow> response outcome"
  s3_outcome :: "nat \<Rightarrow> get_object_output outcome"
  ZENODO_URL :: "string option"
  ZENODO_ACCESS_TOKEN :: "string option"
  decodeURIComponent :: "string \<Rightarrow> error + string"
  encodeURIComponent :: "string \<Rightarrow> string"
  URLSearchParams :: "(string \<times> string) list \<Rightarrow> string"

definition fetch :: "world \<Rightarrow> string \<Rightarrow> request_init \<Rightarrow> state \<Rightarrow> (error + response) \<times> state" where
  "fetch w url options s =
     (let s' = s\<lparr>fetches := fetches s + 1, trace := trace s @ [Fetch url options]\<rparr>
      in case fetch_outcome w (fetches s) of
           Rejects e \<Rightarrow> (Inl e, s')
         | Resolves r \<Rightarrow> (Inr r, s'))"

definition s3Client_send :: "world \<Rightarrow> get_object_command \<Rightarrow> state \<Rightarrow> (error + get_object_output) \<times> state" where
  "s3Client_send w cmd s =
     (let s' = s\<lparr>sends := sends s + 1, trace := trace s @ [S3Send cmd]\<rparr>
      in case s3_outcome w (sends s) of
           Rejects e \<Rightarrow> (Inl e, s')
         | Resolves out \<Rightarrow> (Inr out, s'))"

definition setTimeout :: "int \<Rightarrow> state \<Rightarrow> state" where
  "setTimeout ms s = s\<lparr>trace := trace s @ [SetTimeout ms]\<rparr>"

section \<open>The retrying transport\<close>

definition MAX_RETRIES :: nat where
  "MAX_RETRIES = 3"

definition RETRY_DELAY :: int where
  "RETRY_DELAY = 5000"

text \<open>
  \<^verbatim>\<open>fetchWithRetry(url, options, retries = MAX_RETRIES)\<close>, the same text in
  \<^verbatim>\<open>aws-lambda/src/index.ts\<close> (13-32) and \<^verbatim>\<open>src/types.ts\<close> (274-293). The retry count
  is a natural number: it starts at \<^verbatim>\<open>MAX_RETRIES\<close> and is decremented only while positive.
\<close>

fun fetchWithRetry :: "world \<Rightarrow> string \<Rightarrow> request_init \<Rightarrow> nat \<Rightarrow> state \<Rightarrow> (error + response) \<times> state" where
  "fetchWithRetry w url options retries s =
     (case fetch w url options s of
        (Inr r, s1) \<Rightarrow> (Inr r, s1)
      | (Inl err, s1) \<Rightarrow>
          if retries > 0 then fetchWithRetry w url options (retries - 1) (setTimeout RETRY_DELAY s1)
          else (Inl err, s1))"


declare fetchWithRetry.simps [simp del]

section \<open>String functions of the platform\<close>

text \<open>
  \<^verbatim>\<open>String.prototype.split(sep)\<close> for a one-character separator: the pieces between the
  separators, never an empty array. \<^verbatim>\<open>.pop()\<close> on it is the last piece.
\<close>

fun split_on :: "char \<Rightarrow> string \<Rightarrow> string list" where
  "split_on sep [] = [[]]"
| "split_on sep (c # cs) =
     (if c = sep then [] # split_on sep cs
      else (case split_on sep cs of
              [] \<Rightarrow> [[c]]
            | piece # pieces \<Rightarrow> (c # piece) # pieces))"

text \<open>\<^verbatim>\<open>key.replace(/\+/g, ' ')\<close>.\<close>

definition replace_plus :: "string \<Rightarrow> string" where
  "replace_plus key = map (\<lambda>c. if c = CHR ''+'' then CHR '' '' else c) key"

text \<open>\<^verbatim>\<open>url.startsWith(base)\<close>.\<close>

definition startsWith :: "string \<Rightarrow> string \<Rightarrow> bool" where
  "startsWith url base = prefix base url"

text \<open>
  \<^verbatim>\<open>parseInt(str, 10)\<close>: leading white space is skipped (the ASCII white space, which
  is what a header value can start with), then an optional sign, then the longest run of
  decimal digits; \<^verbatim>\<open>NaN\<close> when there is no digit.
\<close>

definition is_space :: "char \<Rightarrow> bool" where
  "is_space c = (c \<in> set [CHR '' '', CHR 0x09, CHR 0x0A, CHR 0x0B, CHR 0x0C, CHR 0x0D])"

definition is_digit :: "char \<Rightarrow> bool" where
  "is_digit c = (c \<in> set ''0123456789'')"

definition digit_value :: "char \<Rightarrow> nat" where
  "digit_value c = length (takeWhile (\<lambda>d. d \<noteq> c) ''0123456789'')"

definition digits_value :: "string \<Rightarrow> nat" where
  "digits_value ds = foldl (\<lambda>acc d. acc * 10 + digit_value d) 0 ds"

definition parseInt :: "string \<Rightarrow> int option" where
  "parseInt str =
     (let s = dropWhile is_space str;
          negative = (case s of c # _ \<Rightarrow> c = CHR ''-'' | [] \<Rightarrow> False);
          rest = (case s of c # cs \<Rightarrow> if c = CHR ''-'' \<or> c = CHR ''+'' then cs else s | [] \<Rightarrow> s);
          ds = takeWhile is_digit rest
      in if ds = [] then None
         else Some (if negative then - int (digits_value ds) else int (digits_value ds)))"

section \<open>The streaming variant: \<^verbatim>\<open>aws-lambda/src/index.ts\<close>\<close>

abbreviation undefined_read :: "error" where
  "undefined_read \<equiv> TypeError ''Cannot read properties of undefined''"

definition authorization :: "world \<Rightarrow> string \<times> string" where
  "authorization w = (''Authorization'', ''Bearer '' @ template (ZENODO_ACCESS_TOKEN w))"

text \<open>
  \<^verbatim>\<open>uploadFileToZenodo(deposition, fileName, fileStream, fileSize)\<close> (34-84): one PUT
  through the retrying transport, then a HEAD probe by plain \<^verbatim>\<open>fetch\<close> and the
  comparison of the reported \<^verbatim>\<open>Content-Length\<close> with \<^verbatim>\<open>fileSize\<close>.
\<close>

definition uploadFileToZenodo ::
  "world \<Rightarrow> deposition \<Rightarrow> string \<Rightarrow> readable \<Rightarrow> int \<Rightarrow> state \<Rightarrow> (error + unit) \<times> state" where
  "uploadFileToZenodo w deposition fileName fileStream fileSize s =
     (case links deposition of
        None \<Rightarrow> (Inl undefined_read, s)
      | Some l \<Rightarrow>
         (let url = template (bucket l) @ ''/'' @ encodeURIComponent w fileName in
           (case fetchWithRetry w url
                  \<lparr>method = Some ''PUT'',
                   headers = [authorization w,
                              (''Content-Type'', ''application/octet-stream''),
                              (''Content-Length'', toString fileSize)],
                   body = Some (StreamBody fileStream),
                   timeout = Some 0\<rparr> MAX_RETRIES s of
              (Inl e, s1) \<Rightarrow> (Inl e, s1)
            | (Inr response, s1) \<Rightarrow>
               (if \<not> ok response then
                  (Inl (Error (''Failed to upload file: '' @ statusText response)), s1)
                else
                  (case fetch w
                         (url @ ''?'' @ URLSearchParams w
                            [(''access_token'', template (ZENODO_ACCESS_TOKEN w))])
                         \<lparr>method = Some ''HEAD'', headers = [], body = None, timeout = None\<rparr> s1 of
                     (Inl e, s2) \<Rightarrow> (Inl e, s2)
                   | (Inr finalResponse, s2) \<Rightarrow>
                      (if \<not> ok finalResponse then
                         (Inl (Error (''Failed to verify final file size: ''
                                      @ statusText finalResponse)), s2)
                       else
                         (let finalSize =
                                parseInt (case headers_get finalResponse ''Content-Length'' of
                                            None \<Rightarrow> ''0''
                                          | Some v \<Rightarrow> if v = [] then ''0'' else v)
                          in if finalSize \<noteq> Some fileSize then
                               (Inl (Error (''Final file size mismatch. Expected: ''
                                            @ toString fileSize
                                            @ '', Actual: '' @ toString_number finalSize)), s2)
                             else (Inr (), s2))))))))"

definition deposition_metadata :: json_value where
  "deposition_metadata =
     JObject [(''metadata'',
       JObject [(''upload_type'', JString ''dataset''),
                (''communities'', JArray [JObject [(''identifier'', JString ''cdrxiv'')]])])]"

text \<open>
  \<^verbatim>\<open>createDataDeposition()\<close> of \<^verbatim>\<open>index.ts\<close> (86-107); the chunked variant's
  (\<^verbatim>\<open>types.ts\<close> 358-379) is the same text.
\<close>

definition createDataDeposition :: "world \<Rightarrow> state \<Rightarrow> (error + deposition option) \<times> state" where
  "createDataDeposition w s =
     (case fetchWithRetry w (template (ZENODO_URL w) @ ''/api/deposit/depositions'')
             \<lparr>method = Some ''POST'',
              headers = [authorization w, (''Content-Type'', ''application/json'')],
              body = Some (JsonBody deposition_metadata),
              timeout = None\<rparr> MAX_RETRIES s of
        (Inl e, s1) \<Rightarrow> (Inl e, s1)
      | (Inr res, s1) \<Rightarrow>
          if \<not> ok res then (Inl (Error (''Failed to create deposition: '' @ statusText res)), s1)
          else (case json res of
                  Inl e \<Rightarrow> (Inl e, s1)
                | Inr result \<Rightarrow> (Inr result, s1)))"

text \<open>The \<^verbatim>\<open>S3Event\<close>: of each record the handler reads the bucket name and the object key.\<close>

record s3_event_record =
  s3_bucket_name :: string
  s3_object_key :: string

record s3_event =
  Records :: "s3_event_record list"

record lambda_result =
  statusCode :: int
  resultBody :: string

text \<open>The \<^verbatim>\<open>try\<close> block of \<^verbatim>\<open>handler\<close> (121-153).\<close>

definition handler_try ::
  "world \<Rightarrow> string \<Rightarrow> string \<Rightarrow> string \<Rightarrow> state \<Rightarrow> (error + lambda_result) \<times> state" where
  "handler_try w bucketName objectKey fileName s =
     (case s3Client_send w \<lparr>Bucket = bucketName, Key = objectKey, Range = None\<rparr> s of
        (Inl e, s1) \<Rightarrow> (Inl e, s1)
      | (Inr out, s1) \<Rightarrow>
          (case Body out of
             NotReadable \<Rightarrow> (Inl (Error ''Failed to get file stream from S3''), s1)
           | Readable stream \<Rightarrow>
               (case ContentLength out of
                  None \<Rightarrow> (Inl (Error ''Failed to get file stream from S3''), s1)
                | Some contentLength \<Rightarrow>
                    if contentLength = 0 then (Inl (Error ''Failed to get file stream from S3''), s1)
                    else
                      (case createDataDeposition w s1 of
                         (Inl e, s2) \<Rightarrow> (Inl e, s2)
                       | (Inr None, s2) \<Rightarrow> (Inl undefined_read, s2)
                       | (Inr (Some deposition), s2) \<Rightarrow>
                           (case uploadFileToZenodo w deposition fileName stream contentLength s2 of
                              (Inl e, s3) \<Rightarrow> (Inl e, s3)
                            | (Inr _, s3) \<Rightarrow>
                                (case links deposition of
                                   None \<Rightarrow> (Inl undefined_read, s3)
                                 | Some _ \<Rightarrow>
                                     (Inr \<lparr>statusCode = 200,
                                           resultBody = ''File processed and published successfully''\<rparr>,
                                      s3)))))))"

text \<open>
  \<^verbatim>\<open>handler(event)\<close> (109-167). \<open>Inl\<close> is a rejected promise: the exception reaches the
  Lambda runtime. \<open>Inr\<close> is the returned object.
\<close>

definition handler :: "world \<Rightarrow> s3_event \<Rightarrow> state \<Rightarrow> (error + lambda_result) \<times> state" where
  "handler w event s =
     (case Records event of
        [] \<Rightarrow> (Inl undefined_read, s)
      | record # _ \<Rightarrow>
         (let bucketName = s3_bucket_name record in
           (case decodeURIComponent w (replace_plus (s3_object_key record)) of
              Inl e \<Rightarrow> (Inl e, s)
            | Inr objectKey \<Rightarrow>
               (let fileName = last (split_on CHR ''/'' objectKey) in
                 (if fileName = [] then (Inl (Error ''File name is required''), s)
                  else
                    (case handler_try w bucketName objectKey fileName s of
                       (Inr result, s') \<Rightarrow> (Inr result, s')
                     | (Inl error, s') \<Rightarrow>
                         (Inr \<lparr>statusCode = 500,
                               resultBody = ''Error processing file: '' @ message error\<rparr>,
                          s')))))))"

section \<open>The chunked variant: \<^verbatim>\<open>src/types.ts\<close>, lines 259-437\<close>

definition CHUNK_SIZE :: int where
  "CHUNK_SIZE = 100 * 1024 * 1024"

text \<open>
  The byte ranges the loop of \<^verbatim>\<open>uploadLargeFileToZenodo\<close> steps through (304-308, 338):
  \<^verbatim>\<open>start = 0; while (start < fileSize) { end = Math.min(start + CHUNK_SIZE - 1, fileSize - 1);
  ...; start = end + 1 }\<close>, with the chunk ceiling a parameter. With a ceiling that is not
  positive the loop never ends: the result is \<open>None\<close>.
\<close>

partial_function (option) chunk_ranges :: "int \<Rightarrow> int \<Rightarrow> int \<Rightarrow> (int \<times> int) list option" where
  "chunk_ranges chunk fileSize start =
     (if start < fileSize then
        Option.bind (chunk_ranges chunk fileSize (min (start + chunk - 1) (fileSize - 1) + 1))
          (\<lambda>ranges. Some ((start, min (start + chunk - 1) (fileSize - 1)) # ranges))
      else Some [])"

text \<open>
  The \<^verbatim>\<open>while\<close> loop of \<^verbatim>\<open>uploadLargeFileToZenodo\<close> (306-345) from a given \<open>start\<close>,
  with the chunk ceiling a parameter; \<open>None\<close> when it does not return.
\<close>

partial_function (option) upload_chunks ::
  "world \<Rightarrow> int \<Rightarrow> string \<Rightarrow> string \<Rightarrow> string \<Rightarrow> int \<Rightarrow> int \<Rightarrow> state \<Rightarrow> ((error + unit) \<times> state) option" where
  "upload_chunks w chunk url s3bucket s3key fileSize start s =
     (if start < fileSize then
        (let end' = min (start + chunk - 1) (fileSize - 1);
             chunkSize = end' - start + 1
         in
          (case s3Client_send w
                  \<lparr>Bucket = s3bucket, Key = s3key,
                   Range = Some (''bytes='' @ toString start @ ''-'' @ toString end')\<rparr> s of
             (Inl e, s1) \<Rightarrow> Some (Inl e, s1)
           | (Inr out, s1) \<Rightarrow>
              (case Body out of
                 NotReadable \<Rightarrow> Some (Inl (Error ''Failed to get file chunk from S3''), s1)
               | Readable stream \<Rightarrow>
                  (case fetchWithRetry w url
                          \<lparr>method = Some ''PUT'',
                           headers = [authorization w,
                                      (''Content-Type'', ''application/octet-stream''),
                                      (''Content-Length'', toString chunkSize),
                                      (''Content-Range'',
                                         ''bytes '' @ toString start @ ''-'' @ toString end'
                                         @ ''/'' @ toString fileSize)],
                           body = Some (StreamBody stream),
                           timeout = Some 0\<rparr>
                          MAX_RETRIES s1 of
                     (Inl e, s2) \<Rightarrow> Some (Inl e, s2)
                   | (Inr response, s2) \<Rightarrow>
                      (if \<not> ok response then
                         Some (Inl (Error (''Failed to upload file chunk: '' @ statusText response)),
                               s2)
                       else
                         upload_chunks w chunk url s3bucket s3key fileSize (end' + 1) s2)))))
      else Some (Inr (), s))"

text \<open>\<^verbatim>\<open>uploadLargeFileToZenodo(deposition, fileName, bucket, key, fileSize)\<close> (296-346).\<close>

definition uploadLargeFileToZenodo ::
  "world \<Rightarrow> deposition \<Rightarrow> string \<Rightarrow> string \<Rightarrow> string \<Rightarrow> int \<Rightarrow> state \<Rightarrow> ((error + unit) \<times> state) option" where
  "uploadLargeFileToZenodo w deposition fileName s3bucket s3key fileSize s =
     (case links deposition of
        None \<Rightarrow> Some (Inl undefined_read, s)
      | Some l \<Rightarrow>
          upload_chunks w CHUNK_SIZE (template (bucket l) @ ''/'' @ encodeURIComponent w fileName)
            s3bucket s3key fileSize 0 s)"

text \<open>The \<^verbatim>\<open>try\<close> block of the chunked \<^verbatim>\<open>handler\<close> (394-432).\<close>

definition chunked_handler_try ::
  "world \<Rightarrow> string \<Rightarrow> string \<Rightarrow> string \<Rightarrow> state \<Rightarrow> ((error + lambda_result) \<times> state) option" where
  "chunked_handler_try w bucketName objectKey fileName s =
     (case s3Client_send w \<lparr>Bucket = bucketName, Key = objectKey, Range = None\<rparr> s of
        (Inl e, s1) \<Rightarrow> Some (Inl e, s1)
      | (Inr out, s1) \<Rightarrow>
          (case Body out of
             NotReadable \<Rightarrow> Some (Inl (Error ''Failed to get file stream from S3''), s1)
           | Readable stream \<Rightarrow>
               (case ContentLength out of
                  None \<Rightarrow> Some (Inl (Error ''Failed to get file stream from S3''), s1)
                | Some contentLength \<Rightarrow>
                    if contentLength = 0 then
                      Some (Inl (Error ''Failed to get file stream from S3''), s1)
                    else
                      (case createDataDeposition w s1 of
                         (Inl e, s2) \<Rightarrow> Some (Inl e, s2)
                       | (Inr None, s2) \<Rightarrow> Some (Inl undefined_read, s2)
                       | (Inr (Some deposition), s2) \<Rightarrow>
                           (case uploadLargeFileToZenodo w deposition fileName bucketName objectKey
                                   contentLength s2 of
                              None \<Rightarrow> None
                            | Some (Inl e, s3) \<Rightarrow> Some (Inl e, s3)
                            | Some (Inr _, s3) \<Rightarrow>
                                (case links deposition of
                                   None \<Rightarrow> Some (Inl undefined_read, s3)
                                 | Some _ \<Rightarrow>
                                     Some (Inr \<lparr>statusCode = 200,
                                                resultBody = ''File processed and published successfully''\<rparr>,
                                           s3)))))))"

text \<open>The chunked \<^verbatim>\<open>handler(event)\<close> (382-437).\<close>

definition chunked_handler ::
  "world \<Rightarrow> s3_event \<Rightarrow> state \<Rightarrow> ((error + lambda_result) \<times> state) option" where
  "chunked_handler w event s =
     (case Records event of
        [] \<Rightarrow> Some (Inl undefined_read, s)
      | record # _ \<Rightarrow>
         (let bucketName = s3_bucket_name record in
           (case decodeURIComponent w (replace_plus (s3_object_key record)) of
              Inl e \<Rightarrow> Some (Inl e, s)
            | Inr objectKey \<Rightarrow>
               (let fileName = last (split_on CHR ''/'' objectKey) in
                 (if fileName = [] then Some (Inl (Error ''File name is required''), s)
                  else
                    (case chunked_handler_try w bucketName objectKey fileName s of
                       None \<Rightarrow> None
                     | Some (Inr result, s') \<Rightarrow> Some (Inr result, s')
                     | Some (Inl error, s') \<Rightarrow>
                         Some (Inr \<lparr>statusCode = 500, resultBody = ''Error processing file''\<rparr>,
                               s')))))))"

section \<open>The buffering variant and the metadata operations: \<^verbatim>\<open>src/types.ts\<close>, lines 65-257\<close>

text \<open>\<^verbatim>\<open>streamToBuffer(stream)\<close> (76-82).\<close>

definition streamToBuffer :: "readable \<Rightarrow> error + buffer" where
  "streamToBuffer stream =
     (case failure stream of
        Some e \<Rightarrow> Inl e
      | None \<Rightarrow> Inr (concat (chunks stream)))"

text \<open>
  \<^verbatim>\<open>createDataDeposition()\<close> of the buffering variant (84-101): plain \<^verbatim>\<open>fetch\<close>, and the
  status of the response is not read.
\<close>

definition buffering_createDataDeposition ::
  "world \<Rightarrow> state \<Rightarrow> (error + deposition option) \<times> state" where
  "buffering_createDataDeposition w s =
     (case fetch w (template (ZENODO_URL w) @ ''/api/deposit/depositions'')
             \<lparr>method = Some ''POST'',
              headers = [authorization w, (''Content-Type'', ''application/json'')],
              body = Some (JsonBody deposition_metadata),
              timeout = None\<rparr> s of
        (Inl e, s1) \<Rightarrow> (Inl e, s1)
      | (Inr res, s1) \<Rightarrow>
          (case json res of
             Inl e \<Rightarrow> (Inl e, s1)
           | Inr result \<Rightarrow> (Inr result, s1)))"

text \<open>
  The guard at the head of every metadata operation:
  \<^verbatim>\<open>process.env.ZENODO_URL && !url.startsWith(process.env.ZENODO_URL)\<close>. An unset or empty
  variable is falsy.
\<close>

definition invalid_data_url :: "world \<Rightarrow> string \<Rightarrow> bool" where
  "invalid_data_url w url =
     (case ZENODO_URL w of
        None \<Rightarrow> False
      | Some base \<Rightarrow> base \<noteq> [] \<and> \<not> startsWith url base)"

text \<open>\<^verbatim>\<open>updateDataDeposition(url, params)\<close> (102-126).\<close>

definition updateDataDeposition ::
  "world \<Rightarrow> string \<Rightarrow> json_value \<Rightarrow> state \<Rightarrow> (error + deposition option) \<times> state" where
  "updateDataDeposition w url params s =
     (if invalid_data_url w url then (Inl (Error (''Invalid data URL: '' @ url)), s)
      else
        (case fetch w url
                \<lparr>method = Some ''PUT'',
                 headers = [authorization w, (''Content-Type'', ''application/json'')],
                 body = Some (JsonBody params),
                 timeout = None\<rparr> s of
           (Inl e, s1) \<Rightarrow> (Inl e, s1)
         | (Inr res, s1) \<Rightarrow>
             (if status res \<noteq> 200 then
                (Inl (Error (''Status '' @ toString (status res)
                             @ '': Unable to update deposition. '' @ statusText res)), s1)
              else
                (case json res of
                   Inl e \<Rightarrow> (Inl e, s1)
                 | Inr result \<Rightarrow> (Inr result, s1)))))"

text \<open>\<^verbatim>\<open>deleteZenodoEntity(url)\<close> (128-149).\<close>

definition deleteZenodoEntity :: "world \<Rightarrow> string \<Rightarrow> state \<Rightarrow> (error + bool) \<times> state" where
  "deleteZenodoEntity w url s =
     (if invalid_data_url w url then (Inl (Error (''Invalid data URL: '' @ url)), s)
      else
        (case fetch w url
                \<lparr>method = Some ''DELETE'', headers = [authorization w], body = None,
                 timeout = None\<rparr> s of
           (Inl e, s1) \<Rightarrow> (Inl e, s1)
         | (Inr res, s1) \<Rightarrow>
             (if status res = 204 \<or> status res = 404 then (Inr True, s1)
              else
                (Inl (Error (''Status '' @ toString (status res)
                             @ '': Unable to delete deposition. '' @ statusText res)), s1))))"

text \<open>\<^verbatim>\<open>fetchDataDeposition(url)\<close> (151-169).\<close>

definition fetchDataDeposition ::
  "world \<Rightarrow> string \<Rightarrow> state \<Rightarrow> (error + deposition option) \<times> state" where
  "fetchDataDeposition w url s =
     (if invalid_data_url w url then (Inl (Error (''Invalid data URL: '' @ url)), s)
      else
        (case fetch w url
                \<lparr>method = None, headers = [authorization w], body = None, timeout = None\<rparr> s of
           (Inl e, s1) \<Rightarrow> (Inl e, s1)
         | (Inr res, s1) \<Rightarrow>
             (if status res \<noteq> 200 then
                (Inl (Error (''Status '' @ toString (status res)
                             @ '': Unable to fetch deposition. '' @ statusText res)), s1)
              else
                (case json res of
                   Inl e \<Rightarrow> (Inl e, s1)
                 | Inr result \<Rightarrow> (Inr result, s1)))))"

text \<open>\<^verbatim>\<open>createDataDepositionVersion(url)\<close> (171-192).\<close>

definition createDataDepositionVersion ::
  "world \<Rightarrow> string \<Rightarrow> state \<Rightarrow> (error + deposition option) \<times> state" where
  "createDataDepositionVersion w url s =
     (if invalid_data_url w url then (Inl (Error (''Invalid data URL: '' @ url)), s)
      else
        (case fetch w url
                \<lparr>method = Some ''POST'', headers = [authorization w], body = None,
                 timeout = None\<rparr> s of
           (Inl e, s1) \<Rightarrow> (Inl e, s1)
         | (Inr res, s1) \<Rightarrow>
             (if status res \<noteq> 201 then
                (Inl (Error (''Status '' @ toString (status res)
                             @ '': Unable to create new version of deposition. ''
                             @ statusText res)), s1)
              else
                (case json res of
                   Inl e \<Rightarrow> (Inl e, s1)
                 | Inr result \<Rightarrow> (Inr result, s1)))))"

text \<open>
  The \<^verbatim>\<open>try\<close> block of the buffering \<^verbatim>\<open>handler\<close> (206-252). The upload URL is
  \<^verbatim>\<open>`${deposition.links.bucket ?? ''}/${encodeURIComponent(fileName)}`\<close>.
\<close>

definition buffering_handler_try ::
  "world \<Rightarrow> string \<Rightarrow> string \<Rightarrow> string \<Rightarrow> state \<Rightarrow> (error + lambda_result) \<times> state" where
  "buffering_handler_try w bucketName objectKey fileName s =
     (case s3Client_send w \<lparr>Bucket = bucketName, Key = objectKey, Range = None\<rparr> s of
        (Inl e, s1) \<Rightarrow> (Inl e, s1)
      | (Inr out, s1) \<Rightarrow>
          (case Body out of
             NotReadable \<Rightarrow> (Inl (Error ''Failed to get file stream from S3''), s1)
           | Readable stream \<Rightarrow>
               (case streamToBuffer stream of
                  Inl e \<Rightarrow> (Inl e, s1)
                | Inr fileBuffer \<Rightarrow>
                    (case buffering_createDataDeposition w s1 of
                       (Inl e, s2) \<Rightarrow> (Inl e, s2)
                     | (Inr None, s2) \<Rightarrow> (Inl undefined_read, s2)
                     | (Inr (Some deposition), s2) \<Rightarrow>
                         (case links deposition of
                            None \<Rightarrow> (Inl undefined_read, s2)
                          | Some l \<Rightarrow>
                             (let url = (case bucket l of None \<Rightarrow> [] | Some b \<Rightarrow> b)
                                        @ ''/'' @ encodeURIComponent w fileName in
                               (case fetch w url
                                       \<lparr>method = Some ''PUT'',
                                        headers = [authorization w,
                                                   (''Content-Length'',
                                                    toString (int (length fileBuffer)))],
                                        body = Some (BufferBody fileBuffer),
                                        timeout = None\<rparr> s2 of
                                  (Inl e, s3) \<Rightarrow> (Inl e, s3)
                                | (Inr uploadResponse, s3) \<Rightarrow>
                                    (if \<not> ok uploadResponse then
                                       (Inl (Error (''Failed to upload file to Zenodo: ''
                                                    @ statusText uploadResponse)), s3)
                                     else
                                       (Inr \<lparr>statusCode = 200,
                                             resultBody = ''File processed successfully''\<rparr>,
                                        s3)))))))))"

text \<open>The buffering \<^verbatim>\<open>handler(event)\<close> (194-257).\<close>

definition buffering_handler ::
  "world \<Rightarrow> s3_event \<Rightarrow> state \<Rightarrow> (error + lambda_result) \<times> state" where
  "buffering_handler w event s =
     (case Records event of
        [] \<Rightarrow> (Inl undefined_read, s)
      | record # _ \<Rightarrow>
         (let bucketName = s3_bucket_name record in
           (case decodeURIComponent w (replace_plus (s3_object_key record)) of
              Inl e \<Rightarrow> (Inl e, s)
            | Inr objectKey \<Rightarrow>
               (let fileName = last (split_on CHR ''/'' objectKey) in
                 (if fileName = [] then (Inl (Error ''File name is required''), s)
                  else
                    (case buffering_handler_try w bucketName objectKey fileName s of
                       (Inr result, s') \<Rightarrow> (Inr result, s')
                     | (Inl error, s') \<Rightarrow>
                         (Inr \<lparr>statusCode = 500, resultBody = ''Error processing file''\<rparr>,
                          s')))))))"

section \<open>Predicates of the specification\<close>

text \<open>
  A list of inclusive byte ranges is contiguous from \<open>a\<close>: the first range starts at \<open>a\<close>,
  no range is empty, and each range starts right after the one before.
\<close>

fun contiguous_from :: "int \<Rightarrow> (int \<times> int) list \<Rightarrow> bool" where
  "contiguous_from a [] = True"
| "contiguous_from a ((start, end') # ranges) =
     (start = a \<and> start \<le> end' \<and> contiguous_from (end' + 1) ranges)"

text \<open>The number of bytes of the inclusive range \<open>(start, end)\<close>.\<close>

definition range_length :: "int \<times> int \<Rightarrow> int" where
  "range_length r = snd r - fst r + 1"

text \<open>
  The exchange the specification describes for one range of the plan: the read of the
  range from the object store, and one PUT through the retrying transport to the upload
  URL, with \<^verbatim>\<open>Content-Length\<close> the byte count of the range, \<^verbatim>\<open>Content-Range\<close>
  \<^verbatim>\<open>bytes {start}-{end}/{size}\<close> and the stream of the range as body. \<open>spec_upload_ranges\<close> does
  this for the ranges of a list in order, one after the other, and stops at the first
  failure. These definitions follow the words of the specification; the loop of the
  source is \<open>upload_chunks\<close> above.
\<close>

definition spec_range_read :: "string \<Rightarrow> string \<Rightarrow> int \<times> int \<Rightarrow> get_object_command" where
  "spec_range_read s3bucket s3key r =
     \<lparr>Bucket = s3bucket, Key = s3key,
      Range = Some (''bytes='' @ toString (fst r) @ ''-'' @ toString (snd r))\<rparr>"

definition spec_chunk_put :: "world \<Rightarrow> int \<Rightarrow> int \<times> int \<Rightarrow> readable \<Rightarrow> request_init" where
  "spec_chunk_put w fileSize r stream =
     \<lparr>method = Some ''PUT'',
      headers = [authorization w,
                 (''Content-Type'', ''application/octet-stream''),
                 (''Content-Length'', toString (range_length r)),
                 (''Content-Range'',
                    ''bytes '' @ toString (fst r) @ ''-'' @ toString (snd r)
                    @ ''/'' @ toString fileSize)],
      body = Some (StreamBody stream),
      timeout = Some 0\<rparr>"

fun spec_upload_ranges ::
  "world \<Rightarrow> string \<Rightarrow> string \<Rightarrow> string \<Rightarrow> int \<Rightarrow> (int \<times> int) list \<Rightarrow> state \<Rightarrow> (error + unit) \<times> state" where
  "spec_upload_ranges w url s3bucket s3key fileSize [] s = (Inr (), s)"
| "spec_upload_ranges w url s3bucket s3key fileSize (r # ranges) s =
     (case s3Client_send w (spec_range_read s3bucket s3key r) s of
        (Inl e, s1) \<Rightarrow> (Inl e, s1)
      | (Inr out, s1) \<Rightarrow>
         (case Body out of
            NotReadable \<Rightarrow> (Inl (Error ''Failed to get file chunk from S3''), s1)
          | Readable stream \<Rightarrow>
             (case fetchWithRetry w url (spec_chunk_put w fileSize r stream) MAX_RETRIES s1 of
                (Inl e, s2) \<Rightarrow> (Inl e, s2)
              | (Inr response, s2) \<Rightarrow>
                 (if \<not> ok response then
                    (Inl (Error (''Failed to upload file chunk: '' @ statusText response)), s2)
                  else spec_upload_ranges w url s3bucket s3key fileSize ranges s2))))"

text \<open>
  Projections of the trace, and the stream the \<open>n\<close>-th read of the object store returns.
\<close>

definition is_Fetch :: "event \<Rightarrow> bool" where
  "is_Fetch ev = (case ev of Fetch url options \<Rightarrow> True | _ \<Rightarrow> False)"

definition is_S3Send :: "event \<Rightarrow> bool" where
  "is_S3Send ev = (case ev of S3Send cmd \<Rightarrow> True | _ \<Rightarrow> False)"

definition s3_stream :: "world \<Rightarrow> nat \<Rightarrow> readable option" where
  "s3_stream w n =
     (case s3_outcome w n of
        Rejects e \<Rightarrow> None
      | Resolves out \<Rightarrow> (case Body out of NotReadable \<Rightarrow> None | Readable stream \<Rightarrow> Some stream))"

text \<open>
  The size a HEAD response reports (\<^verbatim>\<open>parseInt(headers.get('Content-Length') || '0', 10)\<close>),
  the options of the PUT of the whole file, and the HEAD probe of the upload URL, as
  \<^verbatim>\<open>uploadFileToZenodo\<close> builds them.
\<close>

definition reported_size :: "response \<Rightarrow> int option" where
  "reported_size finalResponse =
     parseInt (case headers_get finalResponse ''Content-Length'' of
                 None \<Rightarrow> ''0''
               | Some v \<Rightarrow> if v = [] then ''0'' else v)"

definition put_whole :: "world \<Rightarrow> readable \<Rightarrow> int \<Rightarrow> request_init" where
  "put_whole w fileStream fileSize =
     \<lparr>method = Some ''PUT'',
      headers = [authorization w,
                 (''Content-Type'', ''application/octet-stream''),
                 (''Content-Length'', toString fileSize)],
      body = Some (StreamBody fileStream),
      timeout = Some 0\<rparr>"

definition head_probe :: "world \<Rightarrow> string \<Rightarrow> event" where
  "head_probe w url =
     Fetch (url @ ''?'' @ URLSearchParams w [(''access_token'', template (ZENODO_ACCESS_TOKEN w))])
       \<lparr>method = Some ''HEAD'', headers = [], body = None, timeout = None\<rparr>"

text \<open>
  The final segment of a path: what follows its last \<^verbatim>\<open>/\<close>, the whole path when it has none.
\<close>

definition lastPathSegment :: "string \<Rightarrow> string" where
  "lastPathSegment path = rev (takeWhile (\<lambda>c. c \<noteq> CHR ''/'') (rev path))"

text \<open>
  The events a handler refuses before its \<^verbatim>\<open>try\<close> block: no record, a key that does not
  decode, or an empty file name. \<open>processed\<close> is the value returned after a successful
  upload.
\<close>

definition rejected_before_try :: "world \<Rightarrow> s3_event \<Rightarrow> bool" where
  "rejected_before_try w event =
     (case Records event of
        [] \<Rightarrow> True
      | record # others \<Rightarrow>
          (case decodeURIComponent w (replace_plus (s3_object_key record)) of
             Inl e \<Rightarrow> True
           | Inr objectKey \<Rightarrow> lastPathSegment objectKey = []))"

definition processed :: lambda_result where
  "processed = \<lparr>statusCode = 200, resultBody = ''File processed and published successfully''\<rparr>"

text \<open>
  A read of the object store is for the object of the first record of the event: the
  bucket of that record, and the key that its object key decodes to.
\<close>

definition first_record_object :: "world \<Rightarrow> s3_event \<Rightarrow> get_object_command \<Rightarrow> bool" where
  "first_record_object w event cmd =
     (case Records event of
        [] \<Rightarrow> False
      | record # others \<Rightarrow>
          Bucket cmd = s3_bucket_name record
          \<and> decodeURIComponent w (replace_plus (s3_object_key record)) = Inr (Key cmd))"

section \<open>Example worlds\<close>

text \<open>
  Concrete worlds for the examples below. \<open>ascii_decodeURIComponent\<close> is the platform's
  \<^verbatim>\<open>decodeURIComponent\<close> on escapes below \<^verbatim>\<open>%80\<close> (an escape from \<^verbatim>\<open>%80\<close> on, which
  starts a UTF-8 sequence, is refused here), and \<open>unreserved_encodeURIComponent\<close> is
  \<^verbatim>\<open>encodeURIComponent\<close> on strings of unreserved characters, which it leaves as they are.
\<close>

definition hex_value :: "char \<Rightarrow> nat option" where
  "hex_value c =
     (if c \<in> set ''0123456789'' then Some (length (takeWhile (\<lambda>d. d \<noteq> c) ''0123456789''))
      else if c \<in> set ''ABCDEF'' then Some (10 + length (takeWhile (\<lambda>d. d \<noteq> c) ''ABCDEF''))
      else if c \<in> set ''abcdef'' then Some (10 + length (takeWhile (\<lambda>d. d \<noteq> c) ''abcdef''))
      else None)"

fun ascii_decodeURIComponent :: "string \<Rightarrow> error + string" where
  "ascii_decodeURIComponent [] = Inr []"
| "ascii_decodeURIComponent (c # cs) =
     (if c = CHR ''%'' then
        (case cs of
           h # l # rest \<Rightarrow>
             (case (hex_value h, hex_value l) of
                (Some a, Some b) \<Rightarrow>
                  (if a < 8 then
                     (case ascii_decodeURIComponent rest of
                        Inl e \<Rightarrow> Inl e
                      | Inr r \<Rightarrow> Inr (char_of (16 * a + b) # r))
                   else Inl (LibraryError ''URI malformed''))
              | _ \<Rightarrow> Inl (LibraryError ''URI malformed''))
         | _ \<Rightarrow> Inl (LibraryError ''URI malformed''))
      else
        (case ascii_decodeURIComponent cs of
           Inl e \<Rightarrow> Inl e
         | Inr r \<Rightarrow> Inr (c # r)))"

definition unreserved_encodeURIComponent :: "string \<Rightarrow> string" where
  "unreserved_encodeURIComponent fileName = fileName"

fun query_string :: "(string \<times> string) list \<Rightarrow> string" where
  "query_string [] = []"
| "query_string [(k, v)] = k @ ''='' @ v"
| "query_string ((k, v) # ps) = k @ ''='' @ v @ ''&'' @ query_string ps"

definition example_world ::
  "(nat \<Rightarrow> response outcome) \<Rightarrow> (nat \<Rightarrow> get_object_output outcome) \<Rightarrow> world" where
  "example_world net store =
     \<lparr>fetch_outcome = net,
      s3_outcome = store,
      ZENODO_URL = Some ''https://zenodo.org'',
      ZENODO_ACCESS_TOKEN = Some ''token'',
      decodeURIComponent = ascii_decodeURIComponent,
      encodeURIComponent = unreserved_encodeURIComponent,
      URLSearchParams = query_string\<rparr>"

definition initial_state :: state where
  "initial_state = \<lparr>fetches = 0, sends = 0, trace = []\<rparr>"

definition plain_response :: "int \<Rightarrow> string \<Rightarrow> response" where
  "plain_response code text =
     \<lparr>status = code, statusText = text, headers_get = (\<lambda>name. None), json = Inr None\<rparr>"

text \<open>A network whose first \<open>k\<close> calls fail at the transport and whose later calls answer \<open>r\<close>.\<close>

definition flaky_network :: "nat \<Rightarrow> response \<Rightarrow> nat \<Rightarrow> response outcome" where
  "flaky_network k r n =
     (if n < k then Rejects (LibraryError (''socket hang up, call '' @ toString (int n)))
      else Resolves r)"

definition empty_store :: "nat \<Rightarrow> get_object_output outcome" where
  "empty_store n = Rejects (LibraryError ''NoSuchKey'')"

definition get_request :: request_init where
  "get_request = \<lparr>method = None, headers = [], body = None, timeout = None\<rparr>"

definition example_links :: deposition_links where
  "example_links =
     \<lparr>bucket = Some ''https://zenodo.org/api/files/b1'',
      html = Some ''https://zenodo.org/deposit/7''\<rparr>"

definition example_deposition :: deposition where
  "example_deposition = \<lparr>dep_id = Some 7, links = Some example_links\<rparr>"

definition stream_of :: "buffer list \<Rightarrow> readable" where
  "stream_of bs = \<lparr>chunks = bs, failure = None\<rparr>"

text \<open>A store where every read resolves with a stream, of an object of the given size.\<close>

definition object_store :: "int \<Rightarrow> nat \<Rightarrow> get_object_output outcome" where
  "object_store len n =
     Resolves \<lparr>Body = Readable (stream_of [''read '' @ toString (int n)]),
               ContentLength = Some len\<rparr>"

definition sized_response :: "string \<Rightarrow> response" where
  "sized_response len =
     \<lparr>status = 200, statusText = ''OK'',
      headers_get = (\<lambda>name. if name = ''Content-Length'' then Some len else None),
      json = Inr None\<rparr>"

text \<open>A network that answers its calls from a list, and refuses the calls after these.\<close>

definition scripted_network :: "response outcome list \<Rightarrow> nat \<Rightarrow> response outcome" where
  "scripted_network outcomes n =
     (if n < length outcomes then outcomes ! n else Rejects (LibraryError ''ECONNREFUSED''))"

text \<open>The event for objects of one bucket, a record for each key.\<close>

definition event_of :: "string \<Rightarrow> string list \<Rightarrow> s3_event" where
  "event_of bucketName keys =
     \<lparr>Records = map (\<lambda>key. \<lparr>s3_bucket_name = bucketName, s3_object_key = key\<rparr>) keys\<rparr>"

text \<open>The answer to the creation of a deposition.\<close>

definition created_response :: response where
  "created_response =
     \<lparr>status = 201, statusText = ''Created'', headers_get = (\<lambda>name. None),
      json = Inr (Some example_deposition)\<rparr>"

text \<open>A store that answers every read with the whole of one object.\<close>

definition whole_object_store :: "buffer \<Rightarrow> nat \<Rightarrow> get_object_output outcome" where
  "whole_object_store content n =
     Resolves \<lparr>Body = Readable (stream_of [content]),
               ContentLength = Some (int (length content))\<rparr>"

text \<open>The answer of a server that fails: status 500 and a JSON body that describes the error.\<close>

definition error_body :: deposition where
  "error_body = \<lparr>dep_id = None, links = None\<rparr>"

definition server_error_response :: "deposition \<Rightarrow> response" where
  "server_error_response body_json =
     \<lparr>status = 500, statusText = ''Internal Server Error'', headers_get = (\<lambda>name. None),
      json = Inr (Some body_json)\<rparr>"

section \<open>The retrying transport retries transport failures only\<close>

lemma fetchWithRetry_resolves:
  "fetch_outcome w (fetches s) = Resolves r \<Longrightarrow>
   fetchWithRetry w url options R s =
     (Inr r, s\<lparr>fetches := fetches s + 1, trace := trace s @ [Fetch url options]\<rparr>)"
  by (subst fetchWithRetry.simps) (simp add: fetch_def)

lemma fetchWithRetry_rejects_last:
  "fetch_outcome w (fetches s) = Rejects e \<Longrightarrow>
   fetchWithRetry w url options 0 s =
     (Inl e, s\<lparr>fetches := fetches s + 1, trace := trace s @ [Fetch url options]\<rparr>)"
  by (subst fetchWithRetry.simps) (simp add: fetch_def)

lemma fetchWithRetry_rejects_retry:
  "fetch_outcome w (fetches s) = Rejects e \<Longrightarrow>
   fetchWithRetry w url options (Suc R) s =
     fetchWithRetry w url options R
       (s\<lparr>fetches := fetches s + 1,
          trace := trace s @ [Fetch url options, SetTimeout RETRY_DELAY]\<rparr>)"
  by (subst fetchWithRetry.simps) (simp add: fetch_def setTimeout_def)

lemma rejects_shift:
  assumes "\<forall>i<Suc k. \<exists>e. fetch_outcome w (n + i) = Rejects e"
  shows "\<forall>i<k. \<exists>e. fetch_outcome w (Suc n + i) = Rejects e"
proof (intro allI impI)
  fix i assume "i < k"
  then have "Suc i < Suc k" by simp
  with assms obtain e where "fetch_outcome w (n + Suc i) = Rejects e" by blast
  then show "\<exists>e. fetch_outcome w (Suc n + i) = Rejects e" by simp
qed

lemma fetchWithRetry_succeeds_after:
  "k \<le> R \<Longrightarrow> (\<forall>i<k. \<exists>e. fetch_outcome w (fetches s + i) = Rejects e) \<Longrightarrow>
   fetch_outcome w (fetches s + k) = Resolves r \<Longrightarrow>
   fetchWithRetry w url options R s =
     (Inr r, s\<lparr>fetches := fetches s + k + 1,
               trace := trace s @ concat (replicate k [Fetch url options, SetTimeout RETRY_DELAY])
                        @ [Fetch url options]\<rparr>)"
proof (induction k arbitrary: R s)
  case 0
  then show ?case by (simp add: fetchWithRetry_resolves)
next
  case (Suc k)
  then obtain R' where R: "R = Suc R'" "k \<le> R'" by (cases R) auto
  from Suc.prems(2) obtain e where e: "fetch_outcome w (fetches s) = Rejects e"
    by (metis add.right_neutral zero_less_Suc)
  let ?s = "s\<lparr>fetches := fetches s + 1,
          trace := trace s @ [Fetch url options, SetTimeout RETRY_DELAY]\<rparr>"
  have a: "\<forall>i<k. \<exists>e. fetch_outcome w (fetches ?s + i) = Rejects e"
    using rejects_shift [OF Suc.prems(2)] by simp
  have b: "fetch_outcome w (fetches ?s + k) = Resolves r" using Suc.prems(3) by simp
  show ?case
    unfolding R(1) fetchWithRetry_rejects_retry [OF e] Suc.IH [OF R(2) a b]
    by simp
qed

lemma fetchWithRetry_fails_after:
  "(\<forall>i<R. \<exists>e. fetch_outcome w (fetches s + i) = Rejects e) \<Longrightarrow>
   fetch_outcome w (fetches s + R) = Rejects e \<Longrightarrow>
   fetchWithRetry w url options R s =
     (Inl e, s\<lparr>fetches := fetches s + R + 1,
               trace := trace s @ concat (replicate R [Fetch url options, SetTimeout RETRY_DELAY])
                        @ [Fetch url options]\<rparr>)"
proof (induction R arbitrary: s)
  case 0
  then show ?case by (simp add: fetchWithRetry_rejects_last)
next
  case (Suc R)
  from Suc.prems(1) obtain e0 where e: "fetch_outcome w (fetches s) = Rejects e0"
    by (metis add.right_neutral zero_less_Suc)
  let ?s = "s\<lparr>fetches := fetches s + 1,
          trace := trace s @ [Fetch url options, SetTimeout RETRY_DELAY]\<rparr>"
  have a: "\<forall>i<R. \<exists>e. fetch_outcome w (fetches ?s + i) = Rejects e"
    using rejects_shift [OF Suc.prems(1)] by simp
  have b: "fetch_outcome w (fetches ?s + R) = Rejects e" using Suc.prems(2) by simp
  show ?case
    unfolding fetchWithRetry_rejects_retry [OF e] Suc.IH [OF a b]
    by simp
qed

text \<open>
  Claim C2. A request goes through \<open>fetchWithRetry\<close> with retry count \<open>R\<close>, in a state
  where \<open>fetches s\<close> calls of \<^verbatim>\<open>fetch\<close> were made before.
  \<^item> If the next \<open>k \<le> R\<close> calls of \<^verbatim>\<open>fetch\<close> reject and the one after resolves with \<open>r\<close>,
    the call returns \<open>r\<close>, after \<open>k + 1\<close> identical attempts with the delay
    \<open>RETRY_DELAY\<close> between them: the delay is observed exactly \<open>k\<close> times.
  \<^item> If the next \<open>R + 1\<close> calls reject, the call throws the error of the last one, after
    \<open>R + 1\<close> attempts and \<open>R\<close> delays.
  \<^item> If the first call resolves with a response \<open>r'\<close>, whatever its status, that response
    is returned after this single attempt, with no delay.
\<close>

theorem fetchWithRetry_contract:
  "(k \<le> R \<and> (\<forall>i<k. \<exists>e. fetch_outcome w (fetches s + i) = Rejects e) \<and>
      fetch_outcome w (fetches s + k) = Resolves r \<longrightarrow>
    fetchWithRetry w url options R s =
      (Inr r, s\<lparr>fetches := fetches s + k + 1,
                trace := trace s @ concat (replicate k [Fetch url options, SetTimeout RETRY_DELAY])
                         @ [Fetch url options]\<rparr>))
   \<and> ((\<forall>i\<le>R. fetch_outcome w (fetches s + i) = Rejects (errs i)) \<longrightarrow>
    fetchWithRetry w url options R s =
      (Inl (errs R), s\<lparr>fetches := fetches s + R + 1,
                trace := trace s @ concat (replicate R [Fetch url options, SetTimeout RETRY_DELAY])
                         @ [Fetch url options]\<rparr>))
   \<and> (fetch_outcome w (fetches s) = Resolves r' \<longrightarrow>
    fetchWithRetry w url options R s =
      (Inr r', s\<lparr>fetches := fetches s + 1, trace := trace s @ [Fetch url options]\<rparr>))"
proof (intro conjI impI)
  assume a: "k \<le> R \<and> (\<forall>i<k. \<exists>e. fetch_outcome w (fetches s + i) = Rejects e) \<and>
      fetch_outcome w (fetches s + k) = Resolves r"
  show "fetchWithRetry w url options R s =
      (Inr r, s\<lparr>fetches := fetches s + k + 1,
                trace := trace s @ concat (replicate k [Fetch url options, SetTimeout RETRY_DELAY])
                         @ [Fetch url options]\<rparr>)"
    by (rule fetchWithRetry_succeeds_after) (use a in blast)+
next
  assume a: "\<forall>i\<le>R. fetch_outcome w (fetches s + i) = Rejects (errs i)"
  then have "\<forall>i<R. \<exists>e. fetch_outcome w (fetches s + i) = Rejects e" by auto
  moreover from a have "fetch_outcome w (fetches s + R) = Rejects (errs R)" by simp
  ultimately show "fetchWithRetry w url options R s =
      (Inl (errs R), s\<lparr>fetches := fetches s + R + 1,
                trace := trace s @ concat (replicate R [Fetch url options, SetTimeout RETRY_DELAY])
                         @ [Fetch url options]\<rparr>)"
    by (rule fetchWithRetry_fails_after)
next
  assume "fetch_outcome w (fetches s) = Resolves r'"
  then show "fetchWithRetry w url options R s =
      (Inr r', s\<lparr>fetches := fetches s + 1, trace := trace s @ [Fetch url options]\<rparr>)"
    by (rule fetchWithRetry_resolves)
qed

theorem fetchWithRetry_contract_witness:
  "fetchWithRetry (example_world (flaky_network 2 (plain_response 503 ''Service Unavailable'')) empty_store)
      ''https://zenodo.org/api/files/b1/data.csv'' get_request 3 initial_state =
     (Inr (plain_response 503 ''Service Unavailable''),
      \<lparr>fetches = 3, sends = 0,
       trace = [Fetch ''https://zenodo.org/api/files/b1/data.csv'' get_request, SetTimeout 5000,
                Fetch ''https://zenodo.org/api/files/b1/data.csv'' get_request, SetTimeout 5000,
                Fetch ''https://zenodo.org/api/files/b1/data.csv'' get_request]\<rparr>)
   \<and> fetchWithRetry (example_world (flaky_network 9 (plain_response 200 ''OK'')) empty_store)
      ''https://zenodo.org/api/files/b1/data.csv'' get_request 3 initial_state =
     (Inl (LibraryError ''socket hang up, call 3''),
      \<lparr>fetches = 4, sends = 0,
       trace = [Fetch ''https://zenodo.org/api/files/b1/data.csv'' get_request, SetTimeout 5000,
                Fetch ''https://zenodo.org/api/files/b1/data.csv'' get_request, SetTimeout 5000,
                Fetch ''https://zenodo.org/api/files/b1/data.csv'' get_request, SetTimeout 5000,
                Fetch ''https://zenodo.org/api/files/b1/data.csv'' get_request]\<rparr>)
   \<and> fetchWithRetry (example_world (flaky_network 0 (plain_response 403 ''Forbidden'')) empty_store)
      ''https://zenodo.org/api/files/b1/data.csv'' get_request 3 initial_state =
     (Inr (plain_response 403 ''Forbidden''),
      \<lparr>fetches = 1, sends = 0,
       trace = [Fetch ''https://zenodo.org/api/files/b1/data.csv'' get_request]\<rparr>)"
proof -
  let ?url = "''https://zenodo.org/api/files/b1/data.csv''"
  let ?w1 = "example_world (flaky_network 2 (plain_response 503 ''Service Unavailable'')) empty_store"
  let ?w2 = "example_world (flaky_network 9 (plain_response 200 ''OK'')) empty_store"
  let ?w3 = "example_world (flaky_network 0 (plain_response 403 ''Forbidden'')) empty_store"
  have two: "replicate 2 x = [x, x]" for x :: "event list"
    by (simp add: numeral_2_eq_2)
  have three: "replicate 3 x = [x, x, x]" for x :: "event list"
    by (simp add: numeral_3_eq_3)
  have h1: "(2::nat) \<le> 3 \<and> (\<forall>i<2. \<exists>e. fetch_outcome ?w1 (fetches initial_state + i) = Rejects e) \<and>
      fetch_outcome ?w1 (fetches initial_state + 2) = Resolves (plain_response 503 ''Service Unavailable'')"
    by (simp add: example_world_def flaky_network_def initial_state_def)
  have h2: "\<forall>i\<le>3. fetch_outcome ?w2 (fetches initial_state + i) =
      Rejects (LibraryError (''socket hang up, call '' @ toString (int i)))"
    by (simp add: example_world_def flaky_network_def initial_state_def)
  have h3: "fetch_outcome ?w3 (fetches initial_state) = Resolves (plain_response 403 ''Forbidden'')"
    by (simp add: example_world_def flaky_network_def initial_state_def)
  have c1: "fetchWithRetry ?w1 ?url get_request 3 initial_state =
     (Inr (plain_response 503 ''Service Unavailable''),
      \<lparr>fetches = 3, sends = 0,
       trace = [Fetch ?url get_request, SetTimeout 5000, Fetch ?url get_request, SetTimeout 5000,
                Fetch ?url get_request]\<rparr>)"
    using fetchWithRetry_contract [of 2 3 ?w1 initial_state "plain_response 503 ''Service Unavailable''"
        ?url get_request] h1
    by (simp add: initial_state_def RETRY_DELAY_def two)
  have c2: "fetchWithRetry ?w2 ?url get_request 3 initial_state =
     (Inl (LibraryError ''socket hang up, call 3''),
      \<lparr>fetches = 4, sends = 0,
       trace = [Fetch ?url get_request, SetTimeout 5000, Fetch ?url get_request, SetTimeout 5000,
                Fetch ?url get_request, SetTimeout 5000, Fetch ?url get_request]\<rparr>)"
    using fetchWithRetry_contract [of _ 3 ?w2 initial_state _ ?url get_request
        "\<lambda>i. LibraryError (''socket hang up, call '' @ toString (int i))"] h2
    by (simp add: initial_state_def RETRY_DELAY_def three toString_def digits.simps digit_char_def)
  have c3: "fetchWithRetry ?w3 ?url get_request 3 initial_state =
     (Inr (plain_response 403 ''Forbidden''),
      \<lparr>fetches = 1, sends = 0, trace = [Fetch ?url get_request]\<rparr>)"
    using fetchWithRetry_contract [of _ 3 ?w3 initial_state _ ?url get_request _
        "plain_response 403 ''Forbidden''"] h3
    by (simp add: initial_state_def)
  from c1 c2 c3 show ?thesis by blast
qed

section \<open>The range plan of the chunked uploader\<close>

lemma chunk_ranges_done: "fileSize \<le> start \<Longrightarrow> chunk_ranges chunk fileSize start = Some []"
  by (subst chunk_ranges.simps) simp

lemma chunk_ranges_step:
  "start < fileSize \<Longrightarrow>
   chunk_ranges chunk fileSize start =
     Option.bind (chunk_ranges chunk fileSize (min (start + chunk - 1) (fileSize - 1) + 1))
       (\<lambda>ranges. Some ((start, min (start + chunk - 1) (fileSize - 1)) # ranges))"
  by (subst chunk_ranges.simps) simp

lemma chunk_ranges_plan:
  assumes c: "0 < chunk"
  shows "\<exists>ranges. chunk_ranges chunk fileSize start = Some ranges
           \<and> contiguous_from start ranges
           \<and> (\<forall>r\<in>set ranges. range_length r \<le> chunk \<and> snd r < fileSize)
           \<and> sum_list (map range_length ranges) = max 0 (fileSize - start)
           \<and> (ranges = [] \<longleftrightarrow> fileSize \<le> start)"
proof (induction "nat (fileSize - start)" arbitrary: start rule: less_induct)
  case less
  show ?case
  proof (cases "start < fileSize")
    case False
    then show ?thesis by (simp add: chunk_ranges_done)
  next
    case True
    let ?e = "min (start + chunk - 1) (fileSize - 1)"
    have e: "start \<le> ?e" "?e < fileSize" "?e - start + 1 \<le> chunk" using True c by auto
    then have "nat (fileSize - (?e + 1)) < nat (fileSize - start)" using True by linarith
    from less [OF this] obtain ranges where
      r: "chunk_ranges chunk fileSize (?e + 1) = Some ranges"
         "contiguous_from (?e + 1) ranges"
         "\<forall>r\<in>set ranges. range_length r \<le> chunk \<and> snd r < fileSize"
         "sum_list (map range_length ranges) = max 0 (fileSize - (?e + 1))"
      by blast
    have "chunk_ranges chunk fileSize start = Some ((start, ?e) # ranges)"
      by (simp add: chunk_ranges_step [OF True] r(1))
    moreover have "contiguous_from start ((start, ?e) # ranges)" using e r(2) by simp
    moreover have "\<forall>r\<in>set ((start, ?e) # ranges). range_length r \<le> chunk \<and> snd r < fileSize"
      using e r(3) by (simp add: range_length_def)
    moreover have "sum_list (map range_length ((start, ?e) # ranges)) = max 0 (fileSize - start)"
      using e r(4) True by (simp add: range_length_def)
    ultimately show ?thesis using True by auto
  qed
qed





lemma chunk_ranges_Nil:
  "chunk_ranges chunk fileSize start = Some [] \<Longrightarrow> \<not> start < fileSize"
  by (subst (asm) chunk_ranges.simps) (auto split: if_splits simp: bind_eq_Some_conv)

lemma chunk_ranges_Cons:
  assumes "chunk_ranges chunk fileSize start = Some (r # ranges)"
  shows "start < fileSize \<and> r = (start, min (start + chunk - 1) (fileSize - 1))
         \<and> chunk_ranges chunk fileSize (min (start + chunk - 1) (fileSize - 1) + 1) = Some ranges"
  using assms
  by (subst (asm) chunk_ranges.simps) (auto split: if_splits simp: bind_eq_Some_conv)

lemma upload_chunks_refines:
  "chunk_ranges chunk fileSize start = Some ranges \<Longrightarrow>
   upload_chunks w chunk url s3bucket s3key fileSize start s =
     Some (spec_upload_ranges w url s3bucket s3key fileSize ranges s)"
proof (induction ranges arbitrary: start s)
  case Nil
  from chunk_ranges_Nil [OF Nil] show ?case
    by (subst upload_chunks.simps) simp
next
  case (Cons r ranges)
  let ?e = "min (start + chunk - 1) (fileSize - 1)"
  from chunk_ranges_Cons [OF Cons.prems] have
    lt: "start < fileSize" and r: "r = (start, ?e)"
    and rest: "chunk_ranges chunk fileSize (?e + 1) = Some ranges"
    by simp_all
  note IH = Cons.IH [OF rest]
  show ?case
    apply (subst upload_chunks.simps)
    apply (simp add: lt r Let_def spec_range_read_def spec_chunk_put_def range_length_def IH
                split: prod.splits sum.splits s3_body.splits)
    done
qed




section \<open>The chunked uploader puts each range of the plan once, in order\<close>

lemma filter_attempts:
  "filter is_Fetch (concat (replicate n [Fetch url options, SetTimeout d]) @ [Fetch url options])
     = replicate (Suc n) (Fetch url options)"
  by (induction n) (simp_all add: is_Fetch_def)

lemma filter_attempts_S3:
  "filter is_S3Send (concat (replicate n [Fetch url options, SetTimeout d]) @ [Fetch url options])
     = []"
  by (induction n) (simp_all add: is_S3Send_def)

lemma fetchWithRetry_effect:
  "\<exists>n\<le>R. snd (fetchWithRetry w url options R s) =
      s\<lparr>fetches := fetches s + n + 1,
        trace := trace s @ concat (replicate n [Fetch url options, SetTimeout RETRY_DELAY])
                 @ [Fetch url options]\<rparr>
    \<and> ((\<exists>r. fetch_outcome w (fetches s) = Resolves r) \<longrightarrow> n = 0)"
proof (induction R arbitrary: s)
  case 0
  show ?case
    by (cases "fetch_outcome w (fetches s)")
       (simp_all add: fetchWithRetry_rejects_last fetchWithRetry_resolves)
next
  case (Suc R)
  show ?case
  proof (cases "fetch_outcome w (fetches s)")
    case (Resolves r)
    then show ?thesis by (intro exI [of _ 0]) (simp add: fetchWithRetry_resolves)
  next
    case (Rejects e)
    let ?s = "s\<lparr>fetches := fetches s + 1,
          trace := trace s @ [Fetch url options, SetTimeout RETRY_DELAY]\<rparr>"
    from Suc [of ?s] obtain n where n: "n \<le> R"
      "snd (fetchWithRetry w url options R ?s) =
        ?s\<lparr>fetches := fetches ?s + n + 1,
          trace := trace ?s @ concat (replicate n [Fetch url options, SetTimeout RETRY_DELAY])
                 @ [Fetch url options]\<rparr>"
      by blast
    have "Suc n \<le> Suc R" using n(1) by simp
    moreover have "snd (fetchWithRetry w url options (Suc R) s) =
      s\<lparr>fetches := fetches s + Suc n + 1,
        trace := trace s @ concat (replicate (Suc n) [Fetch url options, SetTimeout RETRY_DELAY])
                 @ [Fetch url options]\<rparr>"
      unfolding fetchWithRetry_rejects_retry [OF Rejects] n(2) by simp
    moreover have "(\<exists>r. fetch_outcome w (fetches s) = Resolves r) \<longrightarrow> Suc n = 0"
      using Rejects by simp
    ultimately show ?thesis by blast
  qed
qed

lemma fetchWithRetry_events:
  assumes "fetchWithRetry w url options R s = (res, s')"
  shows "\<exists>n\<le>R. filter is_Fetch (trace s') =
                  filter is_Fetch (trace s) @ replicate (Suc n) (Fetch url options)
               \<and> ((\<exists>r. fetch_outcome w (fetches s) = Resolves r) \<longrightarrow> n = 0)"
    and "filter is_S3Send (trace s') = filter is_S3Send (trace s)"
    and "sends s' = sends s"
proof -
  from fetchWithRetry_effect [of R w url options s] assms obtain n where n: "n \<le> R"
    "s' = s\<lparr>fetches := fetches s + n + 1,
        trace := trace s @ concat (replicate n [Fetch url options, SetTimeout RETRY_DELAY])
                 @ [Fetch url options]\<rparr>"
    "(\<exists>r. fetch_outcome w (fetches s) = Resolves r) \<longrightarrow> n = 0"
    by auto
  have "filter is_Fetch (trace s') =
          filter is_Fetch (trace s) @ replicate (Suc n) (Fetch url options)"
    using n(2) filter_attempts [of n url options RETRY_DELAY] by simp
  with n(1,3) show "\<exists>n\<le>R. filter is_Fetch (trace s') =
                  filter is_Fetch (trace s) @ replicate (Suc n) (Fetch url options)
               \<and> ((\<exists>r. fetch_outcome w (fetches s) = Resolves r) \<longrightarrow> n = 0)"
    by blast
  from n show "filter is_S3Send (trace s') = filter is_S3Send (trace s)"
    using filter_attempts_S3 [of n url options RETRY_DELAY] by auto
  from n show "sends s' = sends s" by simp
qed

lemma count_list_map_Suc_0: "count_list (map Suc xs) 0 = 0"
  by (induction xs) simp_all

lemma count_list_map_Suc_Suc: "count_list (map Suc xs) (Suc j) = count_list xs j"
  by (induction xs) simp_all

lemma count_list_replicate: "count_list (replicate m x) y = (if x = y then m else 0)"
  by (induction m) auto

lemma count_list_attempts:
  "count_list (replicate m 0 @ map Suc xs) i = (case i of 0 \<Rightarrow> m | Suc j \<Rightarrow> count_list xs j)"
  by (cases i)
     (simp_all add: count_list_replicate count_list_map_Suc_0 count_list_map_Suc_Suc)

lemma sorted_attempts: "sorted xs \<Longrightarrow> sorted (replicate m 0 @ map Suc xs)"
  by (induction m) (auto simp: sorted_map)

lemma s3Client_send_cases:
  "s3Client_send w cmd s =
     (case s3_outcome w (sends s) of
        Rejects e \<Rightarrow> Inl e
      | Resolves out \<Rightarrow> Inr out,
      s\<lparr>sends := sends s + 1, trace := trace s @ [S3Send cmd]\<rparr>)"
  by (simp add: s3Client_send_def Let_def split: outcome.splits)

lemma upload_ranges_puts:
  assumes "spec_upload_ranges w url s3bucket s3key fileSize ranges s = (res, s')"
  shows "\<exists>is. filter is_Fetch (trace s') =
                filter is_Fetch (trace s)
                @ map (\<lambda>i. Fetch url (spec_chunk_put w fileSize (ranges ! i)
                                        (the (s3_stream w (sends s + i))))) is
            \<and> sorted is
            \<and> (\<forall>i\<in>set is. i < length ranges \<and> s3_stream w (sends s + i) \<noteq> None)
            \<and> (\<forall>i. count_list is i \<le> Suc MAX_RETRIES)
            \<and> (res = Inr () \<longrightarrow> set is = {..<length ranges})
            \<and> ((\<forall>n. \<exists>r. fetch_outcome w n = Resolves r) \<longrightarrow> distinct is)"
  using assms
proof (induction ranges arbitrary: s res s')
  case Nil
  then show ?case by (intro exI [of _ "[]"]) auto
next
  case (Cons r ranges)
  let ?cmd = "spec_range_read s3bucket s3key r"
  let ?s1 = "s\<lparr>sends := sends s + 1, trace := trace s @ [S3Send ?cmd]\<rparr>"
  let ?put = "\<lambda>rs n i. Fetch url (spec_chunk_put w fileSize (rs ! i) (the (s3_stream w (n + i))))"
  have f1: "filter is_Fetch (trace ?s1) = filter is_Fetch (trace s)"
    by (simp add: is_Fetch_def)
  show ?case
  proof (cases "s3_stream w (sends s)")
    case None
    with Cons.prems have "s' = ?s1" "res \<noteq> Inr ()"
      by (auto simp: s3_stream_def s3Client_send_cases split: outcome.splits s3_body.splits)
    with f1 show ?thesis by (intro exI [of _ "[]"]) simp
  next
    case (Some stream)
    obtain y s2 where fw: "fetchWithRetry w url (spec_chunk_put w fileSize r stream) MAX_RETRIES ?s1 = (y, s2)"
      by force
    from fetchWithRetry_events [OF fw] obtain n where n: "n \<le> MAX_RETRIES"
      "filter is_Fetch (trace s2) =
         filter is_Fetch (trace ?s1) @ replicate (Suc n) (Fetch url (spec_chunk_put w fileSize r stream))"
      "(\<exists>r. fetch_outcome w (fetches ?s1) = Resolves r) \<longrightarrow> n = 0"
      and s2: "sends s2 = sends ?s1"
      by blast
    have p0: "?put (r # ranges) (sends s) 0 = Fetch url (spec_chunk_put w fileSize r stream)"
      using Some by simp
    from Some Cons.prems fw have run:
      "(res, s') = (case y of
          Inl e \<Rightarrow> (Inl e, s2)
        | Inr response \<Rightarrow>
            if \<not> ok response then
              (Inl (Error (''Failed to upload file chunk: '' @ statusText response)), s2)
            else spec_upload_ranges w url s3bucket s3key fileSize ranges s2)"
      by (auto simp: s3_stream_def s3Client_send_cases split: outcome.splits s3_body.splits)
    show ?thesis
    proof (cases "\<exists>response. y = Inr response \<and> ok response")
      case False
      with run have stop: "s' = s2" "res \<noteq> Inr ()"
        by (auto split: sum.splits if_splits)
      let ?is = "replicate (Suc n) (0::nat)"
      have "filter is_Fetch (trace s') =
              filter is_Fetch (trace s) @ map (?put (r # ranges) (sends s)) ?is"
        using n(2) f1 stop(1) p0 by (simp add: map_replicate)
      moreover have "sorted ?is" by (simp add: sorted_replicate)
      moreover have "\<forall>i\<in>set ?is. i < length (r # ranges) \<and> s3_stream w (sends s + i) \<noteq> None"
        using Some by simp
      moreover have "\<forall>i. count_list ?is i \<le> Suc MAX_RETRIES"
        using n(1) by (simp add: count_list_replicate)
      moreover have "(\<forall>n. \<exists>r. fetch_outcome w n = Resolves r) \<longrightarrow> distinct ?is"
        using n(3) by auto
      ultimately show ?thesis using stop(2) by blast
    next
      case True
      with run have rest: "spec_upload_ranges w url s3bucket s3key fileSize ranges s2 = (res, s')"
        by auto
      from Cons.IH [OF rest] obtain js where js:
        "filter is_Fetch (trace s') = filter is_Fetch (trace s2) @ map (?put ranges (sends s2)) js"
        "sorted js"
        "\<forall>i\<in>set js. i < length ranges \<and> s3_stream w (sends s2 + i) \<noteq> None"
        "\<forall>i. count_list js i \<le> Suc MAX_RETRIES"
        "res = Inr () \<longrightarrow> set js = {..<length ranges}"
        "(\<forall>n. \<exists>r. fetch_outcome w n = Resolves r) \<longrightarrow> distinct js"
        by blast
      let ?is = "replicate (Suc n) (0::nat) @ map Suc js"
      have shift: "map (?put (r # ranges) (sends s)) (map Suc js) = map (?put ranges (sends s2)) js"
        using s2 by simp
      have "map (?put (r # ranges) (sends s)) ?is =
              replicate (Suc n) (Fetch url (spec_chunk_put w fileSize r stream))
              @ map (?put ranges (sends s2)) js"
        unfolding map_append shift using p0 by (simp add: map_replicate)
      then have a: "filter is_Fetch (trace s') =
              filter is_Fetch (trace s) @ map (?put (r # ranges) (sends s)) ?is"
        using js(1) n(2) f1 by simp
      have b: "sorted ?is" using sorted_attempts [OF js(2)] .
      have c: "\<forall>i\<in>set ?is. i < length (r # ranges) \<and> s3_stream w (sends s + i) \<noteq> None"
        using js(3) Some s2 by auto
      have d: "\<forall>i. count_list ?is i \<le> Suc MAX_RETRIES"
        unfolding count_list_attempts using js(4) n(1) by (auto split: nat.splits)
      have e: "res = Inr () \<longrightarrow> set ?is = {..<length (r # ranges)}"
        using js(5) by (auto simp: lessThan_Suc_eq_insert_0)
      have f: "(\<forall>n. \<exists>r. fetch_outcome w n = Resolves r) \<longrightarrow> distinct ?is"
        using js(6) n(3) by (auto simp: distinct_map)
      from a b c d e f show ?thesis by blast
    qed
  qed
qed


lemma upload_ranges_reads:
  assumes "spec_upload_ranges w url s3bucket s3key fileSize ranges s = (res, s')"
  shows "\<exists>m\<le>length ranges. sends s' = sends s + m
            \<and> filter is_S3Send (trace s') =
                filter is_S3Send (trace s)
                @ map (\<lambda>r. S3Send (spec_range_read s3bucket s3key r)) (take m ranges)
            \<and> (res = Inr () \<longrightarrow> m = length ranges)"
  using assms
proof (induction ranges arbitrary: s res s')
  case Nil
  then show ?case by auto
next
  case (Cons r ranges)
  let ?cmd = "spec_range_read s3bucket s3key r"
  let ?s1 = "s\<lparr>sends := sends s + 1, trace := trace s @ [S3Send ?cmd]\<rparr>"
  have f1: "filter is_S3Send (trace ?s1) = filter is_S3Send (trace s) @ [S3Send ?cmd]"
    by (simp add: is_S3Send_def)
  show ?case
  proof (cases "s3_stream w (sends s)")
    case None
    with Cons.prems have "s' = ?s1" "res \<noteq> Inr ()"
      by (auto simp: s3_stream_def s3Client_send_cases split: outcome.splits s3_body.splits)
    with f1 show ?thesis by (intro exI [of _ 1]) simp
  next
    case (Some stream)
    obtain y s2 where fw: "fetchWithRetry w url (spec_chunk_put w fileSize r stream) MAX_RETRIES ?s1 = (y, s2)"
      by force
    note ev = fetchWithRetry_events(2,3) [OF fw]
    from Some Cons.prems fw have run:
      "(res, s') = (case y of
          Inl e \<Rightarrow> (Inl e, s2)
        | Inr response \<Rightarrow>
            if \<not> ok response then
              (Inl (Error (''Failed to upload file chunk: '' @ statusText response)), s2)
            else spec_upload_ranges w url s3bucket s3key fileSize ranges s2)"
      by (auto simp: s3_stream_def s3Client_send_cases split: outcome.splits s3_body.splits)
    show ?thesis
    proof (cases "\<exists>response. y = Inr response \<and> ok response")
      case False
      with run have stop: "s' = s2" "res \<noteq> Inr ()"
        by (auto split: sum.splits if_splits)
      with f1 ev show ?thesis by (intro exI [of _ 1]) simp
    next
      case True
      with run have rest: "spec_upload_ranges w url s3bucket s3key fileSize ranges s2 = (res, s')"
        by auto
      from Cons.IH [OF rest] obtain m where m: "m \<le> length ranges"
        "sends s' = sends s2 + m"
        "filter is_S3Send (trace s') =
           filter is_S3Send (trace s2)
           @ map (\<lambda>r. S3Send (spec_range_read s3bucket s3key r)) (take m ranges)"
        "res = Inr () \<longrightarrow> m = length ranges"
        by blast
      with f1 ev show ?thesis by (intro exI [of _ "Suc m"]) simp
    qed
  qed
qed


text \<open>
  Claim C5. With a deposition that has links, \<open>uploadLargeFileToZenodo\<close> returns, and its
  run is \<open>spec_upload_ranges\<close> on the range plan of the file: for each range in the order of the
  plan, one read of the range and one PUT through \<open>fetchWithRetry\<close> to the bucket link
  followed by the URL-escaped file name, the next range only after the PUT of the one
  before was answered with a success status. In the trace:
  \<^item> every \<^verbatim>\<open>fetch\<close> is the PUT of a range \<open>ranges ! i\<close>, with \<^verbatim>\<open>Content-Length\<close> the length
    of the range, \<^verbatim>\<open>Content-Range\<close> \<^verbatim>\<open>bytes {start}-{end}/{size}\<close> and as body the stream
    that the read of that range returned;
  \<^item> the indices \<open>is\<close> of these ranges are in increasing order, each at most
    \<open>MAX_RETRIES + 1\<close> times (the attempts of the retrying transport), and exactly once
    when no call of \<^verbatim>\<open>fetch\<close> fails at the transport;
  \<^item> when the upload succeeds every range of the plan was put and read;
  \<^item> the reads of the object store are those of a prefix of the plan, in order.
\<close>

theorem uploadLargeFileToZenodo_puts_each_range:
  assumes "links deposition = Some l"
  shows "\<exists>ranges res s' is.
           chunk_ranges CHUNK_SIZE fileSize 0 = Some ranges
         \<and> uploadLargeFileToZenodo w deposition fileName s3bucket s3key fileSize s = Some (res, s')
         \<and> (res, s') =
             spec_upload_ranges w (template (bucket l) @ ''/'' @ encodeURIComponent w fileName)
               s3bucket s3key fileSize ranges s
         \<and> filter is_Fetch (trace s') =
             filter is_Fetch (trace s)
             @ map (\<lambda>i. Fetch (template (bucket l) @ ''/'' @ encodeURIComponent w fileName)
                          (spec_chunk_put w fileSize (ranges ! i) (the (s3_stream w (sends s + i))))) is
         \<and> sorted is
         \<and> (\<forall>i\<in>set is. i < length ranges \<and> s3_stream w (sends s + i) \<noteq> None)
         \<and> (\<forall>i. count_list is i \<le> Suc MAX_RETRIES)
         \<and> (res = Inr () \<longrightarrow> set is = {..<length ranges})
         \<and> ((\<forall>n. \<exists>r. fetch_outcome w n = Resolves r) \<longrightarrow> distinct is)
         \<and> filter is_S3Send (trace s') =
             filter is_S3Send (trace s)
             @ map (\<lambda>r. S3Send (spec_range_read s3bucket s3key r)) (take (sends s' - sends s) ranges)
         \<and> (res = Inr () \<longrightarrow> sends s' - sends s = length ranges)"
proof -
  let ?url = "template (bucket l) @ ''/'' @ encodeURIComponent w fileName"
  have "0 < CHUNK_SIZE" by (simp add: CHUNK_SIZE_def)
  from chunk_ranges_plan [OF this, of fileSize 0] obtain ranges where
    plan: "chunk_ranges CHUNK_SIZE fileSize 0 = Some ranges"
    by blast
  obtain res s' where run: "spec_upload_ranges w ?url s3bucket s3key fileSize ranges s = (res, s')"
    by force
  have up: "uploadLargeFileToZenodo w deposition fileName s3bucket s3key fileSize s = Some (res, s')"
    using assms upload_chunks_refines [OF plan, of w ?url s3bucket s3key s] run
    by (simp add: uploadLargeFileToZenodo_def)
  from upload_ranges_puts [OF run] obtain "is" where puts:
    "filter is_Fetch (trace s') =
       filter is_Fetch (trace s)
       @ map (\<lambda>i. Fetch ?url (spec_chunk_put w fileSize (ranges ! i) (the (s3_stream w (sends s + i))))) is"
    "sorted is"
    "\<forall>i\<in>set is. i < length ranges \<and> s3_stream w (sends s + i) \<noteq> None"
    "\<forall>i. count_list is i \<le> Suc MAX_RETRIES"
    "res = Inr () \<longrightarrow> set is = {..<length ranges}"
    "(\<forall>n. \<exists>r. fetch_outcome w n = Resolves r) \<longrightarrow> distinct is"
    by blast
  from upload_ranges_reads [OF run] obtain m where reads:
    "sends s' = sends s + m"
    "filter is_S3Send (trace s') =
       filter is_S3Send (trace s) @ map (\<lambda>r. S3Send (spec_range_read s3bucket s3key r)) (take m ranges)"
    "res = Inr () \<longrightarrow> m = length ranges"
    by blast
  from reads have reads':
    "filter is_S3Send (trace s') =
       filter is_S3Send (trace s)
       @ map (\<lambda>r. S3Send (spec_range_read s3bucket s3key r)) (take (sends s' - sends s) ranges)"
    "res = Inr () \<longrightarrow> sends s' - sends s = length ranges"
    by simp_all
  from plan up run [symmetric] puts reads' show ?thesis by blast
qed

theorem uploadLargeFileToZenodo_puts_each_range_witness:
  "links example_deposition = Some example_links
   \<and> uploadLargeFileToZenodo
        (example_world (flaky_network 0 (plain_response 200 ''OK'')) (object_store 262144000))
        example_deposition ''data.csv'' ''uploads'' ''in/data.csv'' 262144000 initial_state =
      Some (Inr (),
        \<lparr>fetches = 3, sends = 3,
         trace =
          [S3Send \<lparr>Bucket = ''uploads'', Key = ''in/data.csv'', Range = Some ''bytes=0-104857599''\<rparr>,
           Fetch ''https://zenodo.org/api/files/b1/data.csv''
             \<lparr>method = Some ''PUT'',
              headers = [(''Authorization'', ''Bearer token''),
                         (''Content-Type'', ''application/octet-stream''),
                         (''Content-Length'', ''104857600''),
                         (''Content-Range'', ''bytes 0-104857599/262144000'')],
              body = Some (StreamBody (stream_of [''read 0''])), timeout = Some 0\<rparr>,
           S3Send \<lparr>Bucket = ''uploads'', Key = ''in/data.csv'',
                   Range = Some ''bytes=104857600-209715199''\<rparr>,
           Fetch ''https://zenodo.org/api/files/b1/data.csv''
             \<lparr>method = Some ''PUT'',
              headers = [(''Authorization'', ''Bearer token''),
                         (''Content-Type'', ''application/octet-stream''),
                         (''Content-Length'', ''104857600''),
                         (''Content-Range'', ''bytes 104857600-209715199/262144000'')],
              body = Some (StreamBody (stream_of [''read 1''])), timeout = Some 0\<rparr>,
           S3Send \<lparr>Bucket = ''uploads'', Key = ''in/data.csv'',
                   Range = Some ''bytes=209715200-262143999''\<rparr>,
           Fetch ''https://zenodo.org/api/files/b1/data.csv''
             \<lparr>method = Some ''PUT'',
              headers = [(''Authorization'', ''Bearer token''),
                         (''Content-Type'', ''application/octet-stream''),
                         (''Content-Length'', ''52428800''),
                         (''Content-Range'', ''bytes 209715200-262143999/262144000'')],
              body = Some (StreamBody (stream_of [''read 2''])), timeout = Some 0\<rparr>]\<rparr>)"
proof -
  let ?w = "example_world (flaky_network 0 (plain_response 200 ''OK'')) (object_store 262144000)"
  have l: "links example_deposition = Some example_links"
    by (simp add: example_deposition_def)
  from uploadLargeFileToZenodo_puts_each_range [OF l, of 262144000 ?w "''data.csv''" "''uploads''"
      "''in/data.csv''" initial_state]
  obtain ranges res s' where
    r: "chunk_ranges CHUNK_SIZE 262144000 0 = Some ranges"
       "uploadLargeFileToZenodo ?w example_deposition ''data.csv'' ''uploads'' ''in/data.csv''
          262144000 initial_state = Some (res, s')"
       "(res, s') = spec_upload_ranges ?w
          (template (bucket example_links) @ ''/'' @ encodeURIComponent ?w ''data.csv'')
          ''uploads'' ''in/data.csv'' 262144000 ranges initial_state"
    by blast
  have "chunk_ranges CHUNK_SIZE 262144000 0 =
          Some [(0, 104857599), (104857600, 209715199), (209715200, 262143999)]"
    by (simp add: chunk_ranges.simps CHUNK_SIZE_def)
  with r(1) have ranges: "ranges = [(0, 104857599), (104857600, 209715199), (209715200, 262143999)]"
    by simp
  have "spec_upload_ranges ?w
          (template (bucket example_links) @ ''/'' @ encodeURIComponent ?w ''data.csv'')
          ''uploads'' ''in/data.csv'' 262144000
          [(0, 104857599), (104857600, 209715199), (209715200, 262143999)] initial_state =
        (Inr (),
        \<lparr>fetches = 3, sends = 3,
         trace =
          [S3Send \<lparr>Bucket = ''uploads'', Key = ''in/data.csv'', Range = Some ''bytes=0-104857599''\<rparr>,
           Fetch ''https://zenodo.org/api/files/b1/data.csv''
             \<lparr>method = Some ''PUT'',
              headers = [(''Authorization'', ''Bearer token''),
                         (''Content-Type'', ''application/octet-stream''),
                         (''Content-Length'', ''104857600''),
                         (''Content-Range'', ''bytes 0-104857599/262144000'')],
              body = Some (StreamBody (stream_of [''read 0''])), timeout = Some 0\<rparr>,
           S3Send \<lparr>Bucket = ''uploads'', Key = ''in/data.csv'',
                   Range = Some ''bytes=104857600-209715199''\<rparr>,
           Fetch ''https://zenodo.org/api/files/b1/data.csv''
             \<lparr>method = Some ''PUT'',
              headers = [(''Authorization'', ''Bearer token''),
                         (''Content-Type'', ''application/octet-stream''),
                         (''Content-Length'', ''104857600''),
                         (''Content-Range'', ''bytes 104857600-209715199/262144000'')],
              body = Some (StreamBody (stream_of [''read 1''])), timeout = Some 0\<rparr>,
           S3Send \<lparr>Bucket = ''uploads'', Key = ''in/data.csv'',
                   Range = Some ''bytes=209715200-262143999''\<rparr>,
           Fetch ''https://zenodo.org/api/files/b1/data.csv''
             \<lparr>method = Some ''PUT'',
              headers = [(''Authorization'', ''Bearer token''),
                         (''Content-Type'', ''application/octet-stream''),
                         (''Content-Length'', ''52428800''),
                         (''Content-Range'', ''bytes 209715200-262143999/262144000'')],
              body = Some (StreamBody (stream_of [''read 2''])), timeout = Some 0\<rparr>]\<rparr>)"
    by (simp add: example_links_def example_world_def flaky_network_def plain_response_def
        object_store_def initial_state_def stream_of_def template_def
        unreserved_encodeURIComponent_def s3Client_send_def spec_range_read_def spec_chunk_put_def
        range_length_def authorization_def ok_def fetch_def MAX_RETRIES_def Let_def
        toString_def digits.simps digit_char_def fetchWithRetry.simps)
  with r(2) r(3) ranges l show ?thesis by simp
qed

section \<open>The size verification of the streaming uploader\<close>













lemma uploadFileToZenodo_after_put:
  assumes "links deposition = Some l"
    and "fetchWithRetry w (template (bucket l) @ ''/'' @ encodeURIComponent w fileName)
           (put_whole w fileStream E) MAX_RETRIES s = (Inr response, s1)"
    and "ok response"
  shows "uploadFileToZenodo w deposition fileName fileStream E s =
     (case fetch_outcome w (fetches s1) of
        Rejects e \<Rightarrow> Inl e
      | Resolves finalResponse \<Rightarrow>
          if \<not> ok finalResponse then
            Inl (Error (''Failed to verify final file size: '' @ statusText finalResponse))
          else if reported_size finalResponse \<noteq> Some E then
            Inl (Error (''Final file size mismatch. Expected: '' @ toString E
                        @ '', Actual: '' @ toString_number (reported_size finalResponse)))
          else Inr (),
      s1\<lparr>fetches := fetches s1 + 1,
         trace := trace s1 @ [head_probe w (template (bucket l) @ ''/'' @ encodeURIComponent w fileName)]\<rparr>)"
  using assms
  by (simp add: uploadFileToZenodo_def put_whole_def Let_def fetch_def head_probe_def
      reported_size_def split: outcome.splits)





section \<open>The metadata operations refuse a URL outside the archive\<close>

text \<open>
  Claim C9. When \<^verbatim>\<open>ZENODO_URL\<close> is set and the target URL does not start with it, each of
  \<open>updateDataDeposition\<close>, \<open>deleteZenodoEntity\<close>, \<open>fetchDataDeposition\<close> and
  \<open>createDataDepositionVersion\<close> throws \<^verbatim>\<open>Invalid data URL: <url>\<close> and leaves the state as
  it was: no call of \<^verbatim>\<open>fetch\<close> is made.
\<close>

theorem metadata_operations_reject_foreign_urls:
  assumes "ZENODO_URL w = Some base" and "\<not> startsWith url base"
  shows "updateDataDeposition w url params s = (Inl (Error (''Invalid data URL: '' @ url)), s)
       \<and> deleteZenodoEntity w url s = (Inl (Error (''Invalid data URL: '' @ url)), s)
       \<and> fetchDataDeposition w url s = (Inl (Error (''Invalid data URL: '' @ url)), s)
       \<and> createDataDepositionVersion w url s = (Inl (Error (''Invalid data URL: '' @ url)), s)"
proof -
  from assms(2) have "base \<noteq> []" by (auto simp: startsWith_def)
  with assms have "invalid_data_url w url" by (simp add: invalid_data_url_def)
  then show ?thesis
    by (simp add: updateDataDeposition_def deleteZenodoEntity_def fetchDataDeposition_def
        createDataDepositionVersion_def)
qed

theorem metadata_operations_reject_foreign_urls_witness:
  "ZENODO_URL (example_world (flaky_network 0 (plain_response 200 ''OK'')) empty_store)
     = Some ''https://zenodo.org''
   \<and> \<not> startsWith ''https://zenodo.example.net/api/deposit/depositions/7'' ''https://zenodo.org''
   \<and> deleteZenodoEntity (example_world (flaky_network 0 (plain_response 200 ''OK'')) empty_store)
        ''https://zenodo.example.net/api/deposit/depositions/7'' initial_state
      = (Inl (Error ''Invalid data URL: https://zenodo.example.net/api/deposit/depositions/7''),
         initial_state)
   \<and> fetchDataDeposition (example_world (flaky_network 0 (plain_response 200 ''OK'')) empty_store)
        ''https://zenodo.example.net/api/deposit/depositions/7'' initial_state
      = (Inl (Error ''Invalid data URL: https://zenodo.example.net/api/deposit/depositions/7''),
         initial_state)"
proof -
  let ?w = "example_world (flaky_network 0 (plain_response 200 ''OK'')) empty_store"
  have a: "ZENODO_URL ?w = Some ''https://zenodo.org''"
    by (simp add: example_world_def)
  have b: "\<not> startsWith ''https://zenodo.example.net/api/deposit/depositions/7'' ''https://zenodo.org''"
    by (simp add: startsWith_def)
  from metadata_operations_reject_foreign_urls [OF a b, of _ initial_state] a b
  show ?thesis by simp
qed

section \<open>The file name of the destination\<close>

lemma split_on_nonempty: "split_on sep cs \<noteq> []"
  by (induction cs) (auto split: list.splits)

lemma split_on_no_sep: "sep \<notin> set cs \<Longrightarrow> split_on sep cs = [cs]"
  by (induction cs) auto

lemma split_on_sep: "sep \<in> set cs \<Longrightarrow> 2 \<le> length (split_on sep cs)"
proof (induction cs)
  case Nil
  then show ?case by simp
next
  case (Cons c cs)
  show ?case
  proof (cases "c = sep")
    case True
    then show ?thesis using split_on_nonempty [of sep cs] by (cases "split_on sep cs") auto
  next
    case False
    with Cons show ?thesis by (auto split: list.splits)
  qed
qed

lemma last_split_on_Cons:
  "last (split_on sep (c # cs)) =
     (if sep \<in> set cs then last (split_on sep cs) else if c = sep then cs else c # cs)"
proof (cases "sep \<in> set cs")
  case False
  then show ?thesis by (simp add: split_on_no_sep)
next
  case True
  from split_on_sep [OF True] obtain p q ps where "split_on sep cs = p # q # ps"
    by (cases "split_on sep cs"; cases "tl (split_on sep cs)") auto
  with True show ?thesis by simp
qed

lemma lastPathSegment_Cons:
  "lastPathSegment (c # cs) =
     (if CHR ''/'' \<in> set cs then lastPathSegment cs else if c = CHR ''/'' then cs else c # cs)"
  by (auto simp: lastPathSegment_def takeWhile_append takeWhile_eq_all_conv [THEN iffD2])

lemma last_split_on_slash: "last (split_on CHR ''/'' path) = lastPathSegment path"
proof (induction path)
  case Nil
  then show ?case by (simp add: lastPathSegment_def)
next
  case (Cons c cs)
  then show ?case by (simp only: last_split_on_Cons lastPathSegment_Cons)
qed

lemma lastPathSegment_suffix:
  "CHR ''/'' \<notin> set (lastPathSegment path)
   \<and> (\<exists>dir. path = dir @ lastPathSegment path \<and> (dir = [] \<or> last dir = CHR ''/''))"
proof -
  let ?P = "\<lambda>c. c \<noteq> CHR ''/''"
  have a: "CHR ''/'' \<notin> set (lastPathSegment path)"
    using set_takeWhileD [of "CHR ''/''" ?P "rev path"] by (auto simp: lastPathSegment_def)
  have "rev path = takeWhile ?P (rev path) @ dropWhile ?P (rev path)" by simp
  then have "path = rev (dropWhile ?P (rev path)) @ lastPathSegment path"
    unfolding lastPathSegment_def by (metis rev_append rev_rev_ident)
  moreover have "rev (dropWhile ?P (rev path)) = [] \<or> last (rev (dropWhile ?P (rev path))) = CHR ''/''"
  proof (cases "dropWhile ?P (rev path)")
    case Nil
    then show ?thesis by simp
  next
    case (Cons x xs)
    then have "\<not> ?P x" using hd_dropWhile [of ?P "rev path"] by auto
    with Cons show ?thesis by simp
  qed
  ultimately show ?thesis using a by blast
qed


lemma replace_plus_nth:
  "i < length key \<Longrightarrow>
   replace_plus key ! i = (if key ! i = CHR ''+'' then CHR '' '' else key ! i)"
  by (simp add: replace_plus_def)

text \<open>
  Claim C7. For an event whose first record's key decodes to \<open>objectKey\<close>, after every
  \<^verbatim>\<open>+\<close> of the key was replaced by a space:
  \<^item> the file name the handler computes is the final path segment of \<open>objectKey\<close>: it has
    no \<^verbatim>\<open>/\<close>, and \<open>objectKey\<close> is this segment alone or a directory part ending in \<^verbatim>\<open>/\<close>
    followed by it;
  \<^item> when the file name is empty the handler throws \<^verbatim>\<open>File name is required\<close> with the
    state as it was: nothing was read from the object store and no request was made;
  \<^item> otherwise the handler runs its \<^verbatim>\<open>try\<close> block with this file name.
\<close>

theorem handler_file_name:
  assumes "Records event = record # others"
    and "decodeURIComponent w (replace_plus (s3_object_key record)) = Inr objectKey"
  shows "length (replace_plus (s3_object_key record)) = length (s3_object_key record)
       \<and> (\<forall>i<length (s3_object_key record).
             replace_plus (s3_object_key record) ! i =
               (if s3_object_key record ! i = CHR ''+'' then CHR '' ''
                else s3_object_key record ! i))
       \<and> last (split_on CHR ''/'' objectKey) = lastPathSegment objectKey
       \<and> CHR ''/'' \<notin> set (lastPathSegment objectKey)
       \<and> (\<exists>dir. objectKey = dir @ lastPathSegment objectKey \<and> (dir = [] \<or> last dir = CHR ''/''))
       \<and> (lastPathSegment objectKey = [] \<longrightarrow>
             handler w event s = (Inl (Error ''File name is required''), s))
       \<and> (lastPathSegment objectKey \<noteq> [] \<longrightarrow>
             handler w event s =
               (case handler_try w (s3_bucket_name record) objectKey (lastPathSegment objectKey) s of
                  (Inr result, s') \<Rightarrow> (Inr result, s')
                | (Inl error, s') \<Rightarrow>
                    (Inr \<lparr>statusCode = 500,
                          resultBody = ''Error processing file: '' @ message error\<rparr>, s')))"
proof -
  have a: "length (replace_plus (s3_object_key record)) = length (s3_object_key record)"
    by (simp add: replace_plus_def)
  have b: "\<forall>i<length (s3_object_key record).
             replace_plus (s3_object_key record) ! i =
               (if s3_object_key record ! i = CHR ''+'' then CHR '' ''
                else s3_object_key record ! i)"
    using replace_plus_nth by blast
  note c = last_split_on_slash [of objectKey]
  note d = lastPathSegment_suffix [of objectKey]
  have e: "lastPathSegment objectKey = [] \<longrightarrow>
             handler w event s = (Inl (Error ''File name is required''), s)"
    using assms by (simp add: handler_def Let_def c)
  have f: "lastPathSegment objectKey \<noteq> [] \<longrightarrow>
             handler w event s =
               (case handler_try w (s3_bucket_name record) objectKey (lastPathSegment objectKey) s of
                  (Inr result, s') \<Rightarrow> (Inr result, s')
                | (Inl error, s') \<Rightarrow>
                    (Inr \<lparr>statusCode = 500,
                          resultBody = ''Error processing file: '' @ message error\<rparr>, s'))"
    using assms by (simp add: handler_def Let_def c)
  from a b c d e f show ?thesis by blast
qed

theorem handler_file_name_witness:
  "decodeURIComponent (example_world (flaky_network 0 (plain_response 200 ''OK'')) empty_store)
      (replace_plus ''uploads/2024/my+data%2B1.csv'') = Inr ''uploads/2024/my data+1.csv''
   \<and> lastPathSegment ''uploads/2024/my data+1.csv'' = ''my data+1.csv''
   \<and> handler (example_world (flaky_network 0 (plain_response 200 ''OK'')) empty_store)
        (event_of ''inbox'' [''uploads/2024/my+data%2B1.csv'']) initial_state
      = (Inr \<lparr>statusCode = 500, resultBody = ''Error processing file: NoSuchKey''\<rparr>,
         \<lparr>fetches = 0, sends = 1,
          trace = [S3Send \<lparr>Bucket = ''inbox'', Key = ''uploads/2024/my data+1.csv'',
                           Range = None\<rparr>]\<rparr>)
   \<and> decodeURIComponent (example_world (flaky_network 0 (plain_response 200 ''OK'')) empty_store)
      (replace_plus ''uploads/2024/'') = Inr ''uploads/2024/''
   \<and> lastPathSegment ''uploads/2024/'' = []
   \<and> handler (example_world (flaky_network 0 (plain_response 200 ''OK'')) empty_store)
        (event_of ''inbox'' [''uploads/2024/'']) initial_state
      = (Inl (Error ''File name is required''), initial_state)"
proof -
  let ?w = "example_world (flaky_network 0 (plain_response 200 ''OK'')) empty_store"
  let ?r1 = "\<lparr>s3_bucket_name = ''inbox'', s3_object_key = ''uploads/2024/my+data%2B1.csv''\<rparr>"
  let ?r2 = "\<lparr>s3_bucket_name = ''inbox'', s3_object_key = ''uploads/2024/''\<rparr>"
  have e1: "Records (event_of ''inbox'' [''uploads/2024/my+data%2B1.csv'']) = ?r1 # []"
    and e2: "Records (event_of ''inbox'' [''uploads/2024/'']) = ?r2 # []"
    by (simp_all add: event_of_def)
  have d1: "decodeURIComponent ?w (replace_plus (s3_object_key ?r1)) = Inr ''uploads/2024/my data+1.csv''"
    by (simp add: example_world_def replace_plus_def hex_value_def char_of_def bit_0)
  have d2: "decodeURIComponent ?w (replace_plus (s3_object_key ?r2)) = Inr ''uploads/2024/''"
    by (simp add: example_world_def replace_plus_def)
  have n1: "lastPathSegment ''uploads/2024/my data+1.csv'' = ''my data+1.csv''"
    by (simp add: lastPathSegment_def)
  have n2: "lastPathSegment ''uploads/2024/'' = []"
    by (simp add: lastPathSegment_def)
  have t1: "handler_try ?w ''inbox'' ''uploads/2024/my data+1.csv'' ''my data+1.csv'' initial_state
      = (Inl (LibraryError ''NoSuchKey''),
         \<lparr>fetches = 0, sends = 1,
          trace = [S3Send \<lparr>Bucket = ''inbox'', Key = ''uploads/2024/my data+1.csv'',
                           Range = None\<rparr>]\<rparr>)"
    by (simp add: handler_try_def s3Client_send_def example_world_def empty_store_def
        initial_state_def)
  from handler_file_name [OF e1 d1, of initial_state] n1 t1
  have h1: "handler ?w (event_of ''inbox'' [''uploads/2024/my+data%2B1.csv'']) initial_state
      = (Inr \<lparr>statusCode = 500, resultBody = ''Error processing file: NoSuchKey''\<rparr>,
         \<lparr>fetches = 0, sends = 1,
          trace = [S3Send \<lparr>Bucket = ''inbox'', Key = ''uploads/2024/my data+1.csv'',
                           Range = None\<rparr>]\<rparr>)"
    by simp
  from handler_file_name [OF e2 d2, of initial_state] n2
  have h2: "handler ?w (event_of ''inbox'' [''uploads/2024/'']) initial_state
      = (Inl (Error ''File name is required''), initial_state)"
    by simp
  from d1 d2 n1 n2 h1 h2 show ?thesis by simp
qed

section \<open>What the handlers return and what they throw\<close>


lemma uploadLargeFileToZenodo_returns:
  "\<exists>out. uploadLargeFileToZenodo w deposition fileName s3bucket s3key fileSize s = Some out"
proof (cases "links deposition")
  case None
  then show ?thesis by (simp add: uploadLargeFileToZenodo_def)
next
  case (Some l)
  have "0 < CHUNK_SIZE" by (simp add: CHUNK_SIZE_def)
  from chunk_ranges_plan [OF this, of fileSize 0] obtain ranges where
    "chunk_ranges CHUNK_SIZE fileSize 0 = Some ranges" by blast
  from upload_chunks_refines [OF this] Some show ?thesis
    by (simp add: uploadLargeFileToZenodo_def)
qed

lemma chunked_handler_try_returns:
  "\<exists>out. chunked_handler_try w bucketName objectKey fileName s = Some out
         \<and> (\<forall>result. fst out = Inr result \<longrightarrow> result = processed)"
proof -
  have "\<exists>out. (case uploadLargeFileToZenodo w deposition fileName bucketName objectKey
                       contentLength s2 of
                  None \<Rightarrow> None
                | Some (Inl e, s3) \<Rightarrow> Some (Inl e, s3)
                | Some (Inr u, s3) \<Rightarrow>
                    (case links deposition of
                       None \<Rightarrow> Some (Inl undefined_read, s3)
                     | Some l \<Rightarrow> Some (Inr processed, s3))) = Some out
              \<and> (\<forall>result. fst out = Inr result \<longrightarrow> result = processed)"
    for deposition contentLength s2
    using uploadLargeFileToZenodo_returns
      [of w deposition fileName bucketName objectKey contentLength s2]
    by (auto split: prod.splits sum.splits option.splits)
  then show ?thesis
    unfolding chunked_handler_try_def processed_def
    by (auto split: prod.splits sum.splits s3_body.splits option.splits if_splits)
qed



lemma handler_cases:
  "handler w event s =
     (if rejected_before_try w event then
        (case Records event of
           [] \<Rightarrow> (Inl undefined_read, s)
         | record # others \<Rightarrow>
             (case decodeURIComponent w (replace_plus (s3_object_key record)) of
                Inl e \<Rightarrow> (Inl e, s)
              | Inr objectKey \<Rightarrow> (Inl (Error ''File name is required''), s)))
      else
        (case handler_try w (s3_bucket_name (hd (Records event)))
                (projr (decodeURIComponent w (replace_plus (s3_object_key (hd (Records event))))))
                (lastPathSegment
                   (projr (decodeURIComponent w (replace_plus (s3_object_key (hd (Records event)))))))
                s of
           (Inr result, s') \<Rightarrow> (Inr result, s')
         | (Inl error, s') \<Rightarrow>
             (Inr \<lparr>statusCode = 500, resultBody = ''Error processing file: '' @ message error\<rparr>,
              s')))"
  by (simp add: handler_def rejected_before_try_def Let_def last_split_on_slash
      split: list.splits sum.splits)

lemma chunked_handler_cases:
  "chunked_handler w event s =
     (if rejected_before_try w event then
        (case Records event of
           [] \<Rightarrow> Some (Inl undefined_read, s)
         | record # others \<Rightarrow>
             (case decodeURIComponent w (replace_plus (s3_object_key record)) of
                Inl e \<Rightarrow> Some (Inl e, s)
              | Inr objectKey \<Rightarrow> Some (Inl (Error ''File name is required''), s)))
      else
        (case chunked_handler_try w (s3_bucket_name (hd (Records event)))
                (projr (decodeURIComponent w (replace_plus (s3_object_key (hd (Records event))))))
                (lastPathSegment
                   (projr (decodeURIComponent w (replace_plus (s3_object_key (hd (Records event)))))))
                s of
           None \<Rightarrow> None
         | Some (Inr result, s') \<Rightarrow> Some (Inr result, s')
         | Some (Inl error, s') \<Rightarrow>
             Some (Inr \<lparr>statusCode = 500, resultBody = ''Error processing file''\<rparr>, s')))"
  by (simp add: chunked_handler_def rejected_before_try_def Let_def last_split_on_slash
      split: list.splits sum.splits)



section \<open>The handlers read the first record only\<close>

lemma fetch_reads:
  "fetch w url options s = (res, s') \<Longrightarrow>
   filter is_S3Send (trace s') = filter is_S3Send (trace s)"
  by (auto simp: fetch_def Let_def is_S3Send_def split: outcome.splits)

lemma createDataDeposition_reads:
  assumes "createDataDeposition w s = (res, s')"
  shows "filter is_S3Send (trace s') = filter is_S3Send (trace s)"
proof -
  obtain y s1 where fw: "fetchWithRetry w (template (ZENODO_URL w) @ ''/api/deposit/depositions'')
             \<lparr>method = Some ''POST'',
              headers = [authorization w, (''Content-Type'', ''application/json'')],
              body = Some (JsonBody deposition_metadata),
              timeout = None\<rparr> MAX_RETRIES s = (y, s1)"
    by force
  from assms fw have "s' = s1"
    by (auto simp: createDataDeposition_def split: sum.splits if_splits)
  with fetchWithRetry_events(2) [OF fw] show ?thesis by simp
qed

lemma buffering_createDataDeposition_reads:
  assumes "buffering_createDataDeposition w s = (res, s')"
  shows "filter is_S3Send (trace s') = filter is_S3Send (trace s)"
proof -
  obtain y s1 where fw: "fetch w (template (ZENODO_URL w) @ ''/api/deposit/depositions'')
             \<lparr>method = Some ''POST'',
              headers = [authorization w, (''Content-Type'', ''application/json'')],
              body = Some (JsonBody deposition_metadata),
              timeout = None\<rparr> s = (y, s1)"
    by force
  from assms fw have "s' = s1"
    by (auto simp: buffering_createDataDeposition_def split: sum.splits if_splits)
  with fetch_reads [OF fw] show ?thesis by simp
qed

lemma uploadFileToZenodo_reads:
  assumes "uploadFileToZenodo w deposition fileName fileStream fileSize s = (res, s')"
  shows "filter is_S3Send (trace s') = filter is_S3Send (trace s)"
proof (cases "links deposition")
  case None
  with assms show ?thesis by (simp add: uploadFileToZenodo_def)
next
  case (Some l)
  let ?url = "template (bucket l) @ ''/'' @ encodeURIComponent w fileName"
  obtain y s1 where fw: "fetchWithRetry w ?url (put_whole w fileStream fileSize) MAX_RETRIES s = (y, s1)"
    by force
  note r1 = fetchWithRetry_events(2) [OF fw]
  show ?thesis
  proof (cases "\<exists>response. y = Inr response \<and> ok response")
    case False
    with assms Some fw have "s' = s1"
      by (auto simp: uploadFileToZenodo_def put_whole_def Let_def split: sum.splits if_splits)
    with r1 show ?thesis by simp
  next
    case True
    then obtain response where y: "y = Inr response" "ok response" by blast
    from uploadFileToZenodo_after_put [OF Some fw [unfolded y(1)] y(2)] assms
    have "s' = s1\<lparr>fetches := fetches s1 + 1, trace := trace s1 @ [head_probe w ?url]\<rparr>"
      by simp
    with r1 show ?thesis by (simp add: head_probe_def is_S3Send_def)
  qed
qed

lemma handler_try_reads:
  assumes "handler_try w bucketName objectKey fileName s = (res, s')"
  shows "filter is_S3Send (trace s') =
           filter is_S3Send (trace s)
           @ [S3Send \<lparr>Bucket = bucketName, Key = objectKey, Range = None\<rparr>]"
proof -
  let ?cmd = "\<lparr>Bucket = bucketName, Key = objectKey, Range = None\<rparr>"
  let ?s1 = "s\<lparr>sends := sends s + 1, trace := trace s @ [S3Send ?cmd]\<rparr>"
  have f1: "filter is_S3Send (trace ?s1) = filter is_S3Send (trace s) @ [S3Send ?cmd]"
    by (simp add: is_S3Send_def)
  obtain d s2 where cd: "createDataDeposition w ?s1 = (d, s2)" by force
  note r2 = createDataDeposition_reads [OF cd]
  have u: "filter is_S3Send (trace s3) = filter is_S3Send (trace s2)"
    if "uploadFileToZenodo w deposition fileName stream contentLength s2 = (x, s3)"
    for deposition stream contentLength x s3
    using uploadFileToZenodo_reads [OF that] .
  from assms cd have "s' = ?s1 \<or> s' = s2
      \<or> (\<exists>deposition stream contentLength x.
            uploadFileToZenodo w deposition fileName stream contentLength s2 = (x, s'))"
    unfolding handler_try_def s3Client_send_cases
    by (auto split: prod.splits sum.splits s3_body.splits option.splits if_splits outcome.splits)
  with f1 r2 u show ?thesis by auto
qed

lemma buffering_handler_try_reads:
  assumes "buffering_handler_try w bucketName objectKey fileName s = (res, s')"
  shows "filter is_S3Send (trace s') =
           filter is_S3Send (trace s)
           @ [S3Send \<lparr>Bucket = bucketName, Key = objectKey, Range = None\<rparr>]"
proof -
  let ?cmd = "\<lparr>Bucket = bucketName, Key = objectKey, Range = None\<rparr>"
  let ?s1 = "s\<lparr>sends := sends s + 1, trace := trace s @ [S3Send ?cmd]\<rparr>"
  have f1: "filter is_S3Send (trace ?s1) = filter is_S3Send (trace s) @ [S3Send ?cmd]"
    by (simp add: is_S3Send_def)
  obtain d s2 where cd: "buffering_createDataDeposition w ?s1 = (d, s2)" by force
  note r2 = buffering_createDataDeposition_reads [OF cd]
  have u: "filter is_S3Send (trace s3) = filter is_S3Send (trace s2)"
    if "fetch w url options s2 = (x, s3)" for url options x s3
    using fetch_reads [OF that] .
  from assms cd have "s' = ?s1 \<or> s' = s2 \<or> (\<exists>url options x. fetch w url options s2 = (x, s'))"
    unfolding buffering_handler_try_def s3Client_send_cases
    by (auto simp: Let_def
        split: prod.splits sum.splits s3_body.splits option.splits if_splits outcome.splits)
  with f1 r2 u show ?thesis by auto
qed


lemma uploadLargeFileToZenodo_reads:
  assumes "uploadLargeFileToZenodo w deposition fileName s3bucket s3key fileSize s = Some (res, s')"
    and "S3Send cmd \<in> set (trace s')"
  shows "S3Send cmd \<in> set (trace s) \<or> (Bucket cmd = s3bucket \<and> Key cmd = s3key)"
proof (cases "links deposition")
  case None
  with assms show ?thesis by (simp add: uploadLargeFileToZenodo_def)
next
  case (Some l)
  let ?url = "template (bucket l) @ ''/'' @ encodeURIComponent w fileName"
  have "0 < CHUNK_SIZE" by (simp add: CHUNK_SIZE_def)
  from chunk_ranges_plan [OF this, of fileSize 0] obtain ranges where
    plan: "chunk_ranges CHUNK_SIZE fileSize 0 = Some ranges" by blast
  from upload_chunks_refines [OF plan, of w ?url s3bucket s3key s] assms(1) Some
  have run: "spec_upload_ranges w ?url s3bucket s3key fileSize ranges s = (res, s')"
    by (simp add: uploadLargeFileToZenodo_def)
  from upload_ranges_reads [OF run] obtain m where
    r: "filter is_S3Send (trace s') =
          filter is_S3Send (trace s)
          @ map (\<lambda>r. S3Send (spec_range_read s3bucket s3key r)) (take m ranges)"
    by blast
  from assms(2) have "S3Send cmd \<in> set (filter is_S3Send (trace s'))"
    by (simp add: is_S3Send_def)
  with r have "S3Send cmd \<in> set (trace s) \<or> (\<exists>r. cmd = spec_range_read s3bucket s3key r)"
    by auto
  then show ?thesis by (auto simp: spec_range_read_def)
qed

lemma S3Send_filter: "S3Send cmd \<in> set tr \<longleftrightarrow> S3Send cmd \<in> set (filter is_S3Send tr)"
  by (simp add: is_S3Send_def)

lemma chunked_handler_try_reads:
  assumes "chunked_handler_try w bucketName objectKey fileName s = Some (res, s')"
    and "S3Send cmd \<in> set (trace s')"
  shows "S3Send cmd \<in> set (trace s) \<or> (Bucket cmd = bucketName \<and> Key cmd = objectKey)"
proof -
  let ?cmd = "\<lparr>Bucket = bucketName, Key = objectKey, Range = None\<rparr>"
  let ?s1 = "s\<lparr>sends := sends s + 1, trace := trace s @ [S3Send ?cmd]\<rparr>"
  have f1: "S3Send c \<in> set (trace ?s1) \<Longrightarrow>
            S3Send c \<in> set (trace s) \<or> (Bucket c = bucketName \<and> Key c = objectKey)" for c
    by auto
  obtain d s2 where cd: "createDataDeposition w ?s1 = (d, s2)" by force
  have r2: "S3Send c \<in> set (trace s2) \<longleftrightarrow> S3Send c \<in> set (trace ?s1)" for c
    using createDataDeposition_reads [OF cd] S3Send_filter by metis
  have u: "S3Send c \<in> set (trace s3) \<Longrightarrow>
           S3Send c \<in> set (trace s2) \<or> (Bucket c = bucketName \<and> Key c = objectKey)"
    if "uploadLargeFileToZenodo w deposition fileName bucketName objectKey contentLength s2
          = Some (x, s3)"
    for deposition contentLength x s3 c
    using uploadLargeFileToZenodo_reads [OF that] .
  from assms(1) cd have "s' = ?s1 \<or> s' = s2
      \<or> (\<exists>deposition contentLength x.
            uploadLargeFileToZenodo w deposition fileName bucketName objectKey contentLength s2
              = Some (x, s'))"
    unfolding chunked_handler_try_def s3Client_send_cases
    by (auto split: prod.splits sum.splits s3_body.splits option.splits if_splits outcome.splits)
  with f1 r2 u assms(2) show ?thesis by blast
qed

lemma S3Send_appended:
  assumes "filter is_S3Send tr' = filter is_S3Send tr @ [S3Send c]"
    and "S3Send cmd \<in> set tr'"
  shows "S3Send cmd \<in> set tr \<or> cmd = c"
proof -
  from assms(2) have "S3Send cmd \<in> set (filter is_S3Send tr')"
    by (simp add: is_S3Send_def)
  then have "S3Send cmd \<in> set (filter is_S3Send tr) \<or> cmd = c"
    unfolding assms(1) by auto
  then show ?thesis by auto
qed

lemma buffering_handler_cases:
  "buffering_handler w event s =
     (if rejected_before_try w event then
        (case Records event of
           [] \<Rightarrow> (Inl undefined_read, s)
         | record # others \<Rightarrow>
             (case decodeURIComponent w (replace_plus (s3_object_key record)) of
                Inl e \<Rightarrow> (Inl e, s)
              | Inr objectKey \<Rightarrow> (Inl (Error ''File name is required''), s)))
      else
        (case buffering_handler_try w (s3_bucket_name (hd (Records event)))
                (projr (decodeURIComponent w (replace_plus (s3_object_key (hd (Records event))))))
                (lastPathSegment
                   (projr (decodeURIComponent w (replace_plus (s3_object_key (hd (Records event)))))))
                s of
           (Inr result, s') \<Rightarrow> (Inr result, s')
         | (Inl error, s') \<Rightarrow>
             (Inr \<lparr>statusCode = 500, resultBody = ''Error processing file''\<rparr>, s')))"
  by (simp add: buffering_handler_def rejected_before_try_def Let_def last_split_on_slash
      split: list.splits sum.splits)

lemma rejected_before_try_first:
  "take 1 (Records event1) = take 1 (Records event2) \<Longrightarrow>
   rejected_before_try w event1 = rejected_before_try w event2
   \<and> Records event1 = [] = (Records event2 = [])
   \<and> hd (Records event1) = hd (Records event2)"
  by (cases "Records event1"; cases "Records event2") (simp_all add: rejected_before_try_def)

lemma not_rejected_first_record:
  assumes "\<not> rejected_before_try w event"
  shows "first_record_object w event
           \<lparr>Bucket = s3_bucket_name (hd (Records event)),
            Key = projr (decodeURIComponent w (replace_plus (s3_object_key (hd (Records event))))),
            Range = rng\<rparr>"
  using assms
  by (auto simp: rejected_before_try_def first_record_object_def split: list.splits sum.splits)

lemma first_record_object_Range:
  "first_record_object w event cmd \<longleftrightarrow>
   first_record_object w event \<lparr>Bucket = Bucket cmd, Key = Key cmd, Range = None\<rparr>"
  by (simp add: first_record_object_def split: list.splits)

text \<open>
  Claim C10. Two events that agree on their first record (both have none, or both have
  the same one) get the same result and the same final state from each of the three
  handlers, in every world and from every state: records after the first have no
  influence. Every read of the object store that a handler makes is for the object of
  the first record.
\<close>

theorem handlers_read_first_record_only:
  assumes "take 1 (Records event1) = take 1 (Records event2)"
  shows "handler w event1 s = handler w event2 s
       \<and> buffering_handler w event1 s = buffering_handler w event2 s
       \<and> chunked_handler w event1 s = chunked_handler w event2 s
       \<and> (\<forall>cmd. S3Send cmd \<in> set (trace (snd (handler w event1 s))) \<longrightarrow>
             S3Send cmd \<in> set (trace s) \<or> first_record_object w event1 cmd)
       \<and> (\<forall>cmd. S3Send cmd \<in> set (trace (snd (buffering_handler w event1 s))) \<longrightarrow>
             S3Send cmd \<in> set (trace s) \<or> first_record_object w event1 cmd)
       \<and> (\<forall>out cmd. chunked_handler w event1 s = Some out \<and> S3Send cmd \<in> set (trace (snd out)) \<longrightarrow>
             S3Send cmd \<in> set (trace s) \<or> first_record_object w event1 cmd)"
proof -
  note first = rejected_before_try_first [OF assms, of w]
  let ?b = "s3_bucket_name (hd (Records event1))"
  let ?k = "projr (decodeURIComponent w (replace_plus (s3_object_key (hd (Records event1)))))"
  have e1: "handler w event1 s = handler w event2 s"
  proof (cases "Records event1")
    case Nil
    with first show ?thesis by (simp add: handler_def)
  next
    case (Cons r rs)
    with first obtain rs' where "Records event2 = r # rs'" by (cases "Records event2") auto
    with Cons show ?thesis by (simp add: handler_def)
  qed
  have e2: "buffering_handler w event1 s = buffering_handler w event2 s"
  proof (cases "Records event1")
    case Nil
    with first show ?thesis by (simp add: buffering_handler_def)
  next
    case (Cons r rs)
    with first obtain rs' where "Records event2 = r # rs'" by (cases "Records event2") auto
    with Cons show ?thesis by (simp add: buffering_handler_def)
  qed
  have e3: "chunked_handler w event1 s = chunked_handler w event2 s"
  proof (cases "Records event1")
    case Nil
    with first show ?thesis by (simp add: chunked_handler_def)
  next
    case (Cons r rs)
    with first obtain rs' where "Records event2 = r # rs'" by (cases "Records event2") auto
    with Cons show ?thesis by (simp add: chunked_handler_def)
  qed
  have untouched: "snd (handler w event1 s) = s" "snd (buffering_handler w event1 s) = s"
      "chunked_handler w event1 s = Some out \<Longrightarrow> snd out = s"
    if "rejected_before_try w event1" for out
    using that unfolding handler_cases buffering_handler_cases chunked_handler_cases
    by (auto split: list.splits sum.splits)
  have r1: "S3Send cmd \<in> set (trace s) \<or> first_record_object w event1 cmd"
    if a: "S3Send cmd \<in> set (trace (snd (handler w event1 s)))" for cmd
  proof (cases "rejected_before_try w event1")
    case True
    with a untouched(1) show ?thesis by simp
  next
    case False
    obtain res s' where t: "handler_try w ?b ?k (lastPathSegment ?k) s = (res, s')"
      by force
    with False have "snd (handler w event1 s) = s'"
      unfolding handler_cases by (simp split: sum.splits)
    with a S3Send_appended [OF handler_try_reads [OF t], of cmd] have
      "S3Send cmd \<in> set (trace s) \<or> cmd = \<lparr>Bucket = ?b, Key = ?k, Range = None\<rparr>"
      by simp
    with not_rejected_first_record [OF False] show ?thesis by blast
  qed
  have r2: "S3Send cmd \<in> set (trace s) \<or> first_record_object w event1 cmd"
    if a: "S3Send cmd \<in> set (trace (snd (buffering_handler w event1 s)))" for cmd
  proof (cases "rejected_before_try w event1")
    case True
    with a untouched(2) show ?thesis by simp
  next
    case False
    obtain res s' where t: "buffering_handler_try w ?b ?k (lastPathSegment ?k) s = (res, s')"
      by force
    with False have "snd (buffering_handler w event1 s) = s'"
      unfolding buffering_handler_cases by (simp split: sum.splits)
    with a S3Send_appended [OF buffering_handler_try_reads [OF t], of cmd] have
      "S3Send cmd \<in> set (trace s) \<or> cmd = \<lparr>Bucket = ?b, Key = ?k, Range = None\<rparr>"
      by simp
    with not_rejected_first_record [OF False] show ?thesis by blast
  qed
  have r3: "S3Send cmd \<in> set (trace s) \<or> first_record_object w event1 cmd"
    if a: "chunked_handler w event1 s = Some out \<and> S3Send cmd \<in> set (trace (snd out))"
    for out cmd
  proof (cases "rejected_before_try w event1")
    case True
    with a untouched(3) show ?thesis by simp
  next
    case False
    from chunked_handler_try_returns [of w ?b ?k "lastPathSegment ?k" s]
    obtain res s' where t: "chunked_handler_try w ?b ?k (lastPathSegment ?k) s = Some (res, s')"
      by force
    with False a have "snd out = s'"
      unfolding chunked_handler_cases by (auto split: sum.splits)
    with a chunked_handler_try_reads [OF t, of cmd] have
      "S3Send cmd \<in> set (trace s) \<or> (Bucket cmd = ?b \<and> Key cmd = ?k)"
      by blast
    moreover have "first_record_object w event1 \<lparr>Bucket = ?b, Key = ?k, Range = None\<rparr>"
      using not_rejected_first_record [OF False] .
    ultimately show ?thesis
      using first_record_object_Range [of w event1 cmd] by auto
  qed
  from e1 e2 e3 r1 r2 r3 show ?thesis by blast
qed


theorem handlers_read_first_record_only_witness:
  "take 1 (Records (event_of ''inbox'' [''uploads/data.csv'', ''uploads/other.csv'']))
     = take 1 (Records (event_of ''inbox'' [''uploads/data.csv'']))
   \<and> handler
        (example_world
           (scripted_network [Resolves created_response, Resolves (plain_response 200 ''OK''),
                              Resolves (sized_response ''10'')])
           (whole_object_store ''0123456789''))
        (event_of ''inbox'' [''uploads/data.csv'', ''uploads/other.csv'']) initial_state
     = (Inr processed,
        \<lparr>fetches = 3, sends = 1,
         trace =
          [S3Send \<lparr>Bucket = ''inbox'', Key = ''uploads/data.csv'', Range = None\<rparr>,
           Fetch ''https://zenodo.org/api/deposit/depositions''
             \<lparr>method = Some ''POST'',
              headers = [(''Authorization'', ''Bearer token''),
                         (''Content-Type'', ''application/json'')],
              body = Some (JsonBody deposition_metadata), timeout = None\<rparr>,
           Fetch ''https://zenodo.org/api/files/b1/data.csv''
             \<lparr>method = Some ''PUT'',
              headers = [(''Authorization'', ''Bearer token''),
                         (''Content-Type'', ''application/octet-stream''),
                         (''Content-Length'', ''10'')],
              body = Some (StreamBody (stream_of [''0123456789''])), timeout = Some 0\<rparr>,
           Fetch ''https://zenodo.org/api/files/b1/data.csv?access_token=token''
             \<lparr>method = Some ''HEAD'', headers = [], body = None, timeout = None\<rparr>]\<rparr>)"
proof -
  let ?w = "example_world
           (scripted_network [Resolves created_response, Resolves (plain_response 200 ''OK''),
                              Resolves (sized_response ''10'')])
           (whole_object_store ''0123456789'')"
  let ?e1 = "event_of ''inbox'' [''uploads/data.csv'', ''uploads/other.csv'']"
  let ?e2 = "event_of ''inbox'' [''uploads/data.csv'']"
  have t: "take 1 (Records ?e1) = take 1 (Records ?e2)"
    by (simp add: event_of_def)
  from handlers_read_first_record_only [OF t, of ?w initial_state]
  have same: "handler ?w ?e1 initial_state = handler ?w ?e2 initial_state"
    by blast
  have "handler ?w ?e2 initial_state
     = (Inr processed,
        \<lparr>fetches = 3, sends = 1,
         trace =
          [S3Send \<lparr>Bucket = ''inbox'', Key = ''uploads/data.csv'', Range = None\<rparr>,
           Fetch ''https://zenodo.org/api/deposit/depositions''
             \<lparr>method = Some ''POST'',
              headers = [(''Authorization'', ''Bearer token''),
                         (''Content-Type'', ''application/json'')],
              body = Some (JsonBody deposition_metadata), timeout = None\<rparr>,
           Fetch ''https://zenodo.org/api/files/b1/data.csv''
             \<lparr>method = Some ''PUT'',
              headers = [(''Authorization'', ''Bearer token''),
                         (''Content-Type'', ''application/octet-stream''),
                         (''Content-Length'', ''10'')],
              body = Some (StreamBody (stream_of [''0123456789''])), timeout = Some 0\<rparr>,
           Fetch ''https://zenodo.org/api/files/b1/data.csv?access_token=token''
             \<lparr>method = Some ''HEAD'', headers = [], body = None, timeout = None\<rparr>]\<rparr>)"
    by (simp add: handler_def handler_try_def createDataDeposition_def uploadFileToZenodo_def
        event_of_def example_world_def scripted_network_def whole_object_store_def
        created_response_def plain_response_def sized_response_def example_deposition_def
        example_links_def initial_state_def processed_def replace_plus_def Let_def
        s3Client_send_def fetch_def fetchWithRetry.simps ok_def authorization_def template_def
        unreserved_encodeURIComponent_def MAX_RETRIES_def toString_def digits.simps
        digit_char_def parseInt_def is_space_def is_digit_def digits_value_def digit_value_def)
  with t same show ?thesis by simp
qed

section \<open>An object of size zero\<close>

text \<open>
  Claim C3 says that for an object of size 0 the plan has no range and the uploader still
  makes one PUT of length zero, so that the transfer does not fail. The plan of size 0 is
  empty. At an event for an empty object (\<^verbatim>\<open>ContentLength\<close> is 0):
  \<^item> the handler of \<^verbatim>\<open>index.ts\<close> and the chunked handler take \<^verbatim>\<open>!ContentLength\<close> for a
    read that failed, and return status 500 after the read of the object, with no request
    to the archive;
  \<^item> \<open>uploadLargeFileToZenodo\<close> itself, at size 0, returns at once with no PUT;
  \<^item> the buffering handler creates the deposition, makes one PUT with
    \<^verbatim>\<open>Content-Length: 0\<close> and an empty body, and returns status 200.
\<close>

theorem empty_object_is_rejected:
  "chunk_ranges CHUNK_SIZE 0 0 = Some []
   \<and> handler
        (example_world
           (scripted_network [Resolves created_response, Resolves (plain_response 200 ''OK'')])
           (whole_object_store []))
        (event_of ''inbox'' [''uploads/empty.txt'']) initial_state
     = (Inr \<lparr>statusCode = 500,
              resultBody = ''Error processing file: Failed to get file stream from S3''\<rparr>,
        \<lparr>fetches = 0, sends = 1,
         trace = [S3Send \<lparr>Bucket = ''inbox'', Key = ''uploads/empty.txt'', Range = None\<rparr>]\<rparr>)
   \<and> chunked_handler
        (example_world
           (scripted_network [Resolves created_response, Resolves (plain_response 200 ''OK'')])
           (whole_object_store []))
        (event_of ''inbox'' [''uploads/empty.txt'']) initial_state
     = Some (Inr \<lparr>statusCode = 500, resultBody = ''Error processing file''\<rparr>,
        \<lparr>fetches = 0, sends = 1,
         trace = [S3Send \<lparr>Bucket = ''inbox'', Key = ''uploads/empty.txt'', Range = None\<rparr>]\<rparr>)
   \<and> uploadLargeFileToZenodo
        (example_world
           (scripted_network [Resolves created_response, Resolves (plain_response 200 ''OK'')])
           (whole_object_store []))
        example_deposition ''empty.txt'' ''inbox'' ''uploads/empty.txt'' 0 initial_state
     = Some (Inr (), initial_state)
   \<and> buffering_handler
        (example_world
           (scripted_network [Resolves created_response, Resolves (plain_response 200 ''OK'')])
           (whole_object_store []))
        (event_of ''inbox'' [''uploads/empty.txt'']) initial_state
     = (Inr \<lparr>statusCode = 200, resultBody = ''File processed successfully''\<rparr>,
        \<lparr>fetches = 2, sends = 1,
         trace =
          [S3Send \<lparr>Bucket = ''inbox'', Key = ''uploads/empty.txt'', Range = None\<rparr>,
           Fetch ''https://zenodo.org/api/deposit/depositions''
             \<lparr>method = Some ''POST'',
              headers = [(''Authorization'', ''Bearer token''),
                         (''Content-Type'', ''application/json'')],
              body = Some (JsonBody deposition_metadata), timeout = None\<rparr>,
           Fetch ''https://zenodo.org/api/files/b1/empty.txt''
             \<lparr>method = Some ''PUT'',
              headers = [(''Authorization'', ''Bearer token''), (''Content-Length'', ''0'')],
              body = Some (BufferBody []), timeout = None\<rparr>]\<rparr>)"
proof (intro conjI)
  let ?w = "example_world
           (scripted_network [Resolves created_response, Resolves (plain_response 200 ''OK'')])
           (whole_object_store [])"
  let ?ev = "event_of ''inbox'' [''uploads/empty.txt'']"
  show "chunk_ranges CHUNK_SIZE 0 0 = Some []"
    by (simp add: chunk_ranges.simps)
  show "handler ?w ?ev initial_state
     = (Inr \<lparr>statusCode = 500,
              resultBody = ''Error processing file: Failed to get file stream from S3''\<rparr>,
        \<lparr>fetches = 0, sends = 1,
         trace = [S3Send \<lparr>Bucket = ''inbox'', Key = ''uploads/empty.txt'', Range = None\<rparr>]\<rparr>)"
    by (simp add: handler_def handler_try_def event_of_def example_world_def
        whole_object_store_def stream_of_def initial_state_def replace_plus_def Let_def
        s3Client_send_def)
  show "chunked_handler ?w ?ev initial_state
     = Some (Inr \<lparr>statusCode = 500, resultBody = ''Error processing file''\<rparr>,
        \<lparr>fetches = 0, sends = 1,
         trace = [S3Send \<lparr>Bucket = ''inbox'', Key = ''uploads/empty.txt'', Range = None\<rparr>]\<rparr>)"
    by (simp add: chunked_handler_def chunked_handler_try_def event_of_def example_world_def
        whole_object_store_def stream_of_def initial_state_def replace_plus_def Let_def
        s3Client_send_def)
  show "uploadLargeFileToZenodo ?w example_deposition ''empty.txt'' ''inbox''
          ''uploads/empty.txt'' 0 initial_state
     = Some (Inr (), initial_state)"
    by (simp add: uploadLargeFileToZenodo_def example_deposition_def upload_chunks.simps)
  show "buffering_handler ?w ?ev initial_state
     = (Inr \<lparr>statusCode = 200, resultBody = ''File processed successfully''\<rparr>,
        \<lparr>fetches = 2, sends = 1,
         trace =
          [S3Send \<lparr>Bucket = ''inbox'', Key = ''uploads/empty.txt'', Range = None\<rparr>,
           Fetch ''https://zenodo.org/api/deposit/depositions''
             \<lparr>method = Some ''POST'',
              headers = [(''Authorization'', ''Bearer token''),
                         (''Content-Type'', ''application/json'')],
              body = Some (JsonBody deposition_metadata), timeout = None\<rparr>,
           Fetch ''https://zenodo.org/api/files/b1/empty.txt''
             \<lparr>method = Some ''PUT'',
              headers = [(''Authorization'', ''Bearer token''), (''Content-Length'', ''0'')],
              body = Some (BufferBody []), timeout = None\<rparr>]\<rparr>)"
    by (simp add: buffering_handler_def buffering_handler_try_def
        buffering_createDataDeposition_def streamToBuffer_def event_of_def example_world_def
        scripted_network_def whole_object_store_def stream_of_def created_response_def
        plain_response_def example_deposition_def example_links_def initial_state_def
        replace_plus_def Let_def s3Client_send_def fetch_def ok_def authorization_def
        template_def unreserved_encodeURIComponent_def toString_def digits.simps digit_char_def)
qed

section \<open>A deposition that the archive refuses to create\<close>

text \<open>
  Claim C6 says that a non-success status of the creation request makes the provisioner
  fail with an error that carries the status, and that no upload is attempted. When the
  creation request is answered with status 500:
  \<^item> \<open>buffering_createDataDeposition\<close>, which does not read the status, returns the JSON
    body of the answer as the deposition;
  \<^item> \<open>createDataDeposition\<close> of \<^verbatim>\<open>index.ts\<close> and of the chunked variant throws
    \<^verbatim>\<open>Failed to create deposition: Internal Server Error\<close>;
  \<^item> when the body of the 500 answer has a bucket link, the buffering handler goes on to
    PUT the file there and returns status 200.
\<close>

theorem buffering_provisioner_ignores_status:
  "\<not> ok (server_error_response error_body)
   \<and> buffering_createDataDeposition
        (example_world (scripted_network [Resolves (server_error_response error_body)])
           (whole_object_store ''0123456789''))
        initial_state
     = (Inr (Some error_body),
        \<lparr>fetches = 1, sends = 0,
         trace = [Fetch ''https://zenodo.org/api/deposit/depositions''
                    \<lparr>method = Some ''POST'',
                     headers = [(''Authorization'', ''Bearer token''),
                                (''Content-Type'', ''application/json'')],
                     body = Some (JsonBody deposition_metadata), timeout = None\<rparr>]\<rparr>)
   \<and> createDataDeposition
        (example_world (scripted_network [Resolves (server_error_response error_body)])
           (whole_object_store ''0123456789''))
        initial_state
     = (Inl (Error ''Failed to create deposition: Internal Server Error''),
        \<lparr>fetches = 1, sends = 0,
         trace = [Fetch ''https://zenodo.org/api/deposit/depositions''
                    \<lparr>method = Some ''POST'',
                     headers = [(''Authorization'', ''Bearer token''),
                                (''Content-Type'', ''application/json'')],
                     body = Some (JsonBody deposition_metadata), timeout = None\<rparr>]\<rparr>)
   \<and> buffering_handler
        (example_world
           (scripted_network [Resolves (server_error_response example_deposition),
                              Resolves (plain_response 200 ''OK'')])
           (whole_object_store ''0123456789''))
        (event_of ''inbox'' [''uploads/data.csv'']) initial_state
     = (Inr \<lparr>statusCode = 200, resultBody = ''File processed successfully''\<rparr>,
        \<lparr>fetches = 2, sends = 1,
         trace =
          [S3Send \<lparr>Bucket = ''inbox'', Key = ''uploads/data.csv'', Range = None\<rparr>,
           Fetch ''https://zenodo.org/api/deposit/depositions''
             \<lparr>method = Some ''POST'',
              headers = [(''Authorization'', ''Bearer token''),
                         (''Content-Type'', ''application/json'')],
              body = Some (JsonBody deposition_metadata), timeout = None\<rparr>,
           Fetch ''https://zenodo.org/api/files/b1/data.csv''
             \<lparr>method = Some ''PUT'',
              headers = [(''Authorization'', ''Bearer token''), (''Content-Length'', ''10'')],
              body = Some (BufferBody ''0123456789''), timeout = None\<rparr>]\<rparr>)"
proof (intro conjI)
  show "\<not> ok (server_error_response error_body)"
    by (simp add: ok_def server_error_response_def)
  show "buffering_createDataDeposition
        (example_world (scripted_network [Resolves (server_error_response error_body)])
           (whole_object_store ''0123456789''))
        initial_state
     = (Inr (Some error_body),
        \<lparr>fetches = 1, sends = 0,
         trace = [Fetch ''https://zenodo.org/api/deposit/depositions''
                    \<lparr>method = Some ''POST'',
                     headers = [(''Authorization'', ''Bearer token''),
                                (''Content-Type'', ''application/json'')],
                     body = Some (JsonBody deposition_metadata), timeout = None\<rparr>]\<rparr>)"
    by (simp add: buffering_createDataDeposition_def example_world_def scripted_network_def
        server_error_response_def initial_state_def fetch_def authorization_def template_def)
  show "createDataDeposition
        (example_world (scripted_network [Resolves (server_error_response error_body)])
           (whole_object_store ''0123456789''))
        initial_state
     = (Inl (Error ''Failed to create deposition: Internal Server Error''),
        \<lparr>fetches = 1, sends = 0,
         trace = [Fetch ''https://zenodo.org/api/deposit/depositions''
                    \<lparr>method = Some ''POST'',
                     headers = [(''Authorization'', ''Bearer token''),
                                (''Content-Type'', ''application/json'')],
                     body = Some (JsonBody deposition_metadata), timeout = None\<rparr>]\<rparr>)"
    by (simp add: createDataDeposition_def example_world_def scripted_network_def
        server_error_response_def initial_state_def fetch_def fetchWithRetry.simps ok_def
        authorization_def template_def)
  show "buffering_handler
        (example_world
           (scripted_network [Resolves (server_error_response example_deposition),
                              Resolves (plain_response 200 ''OK'')])
           (whole_object_store ''0123456789''))
        (event_of ''inbox'' [''uploads/data.csv'']) initial_state
     = (Inr \<lparr>statusCode = 200, resultBody = ''File processed successfully''\<rparr>,
        \<lparr>fetches = 2, sends = 1,
         trace =
          [S3Send \<lparr>Bucket = ''inbox'', Key = ''uploads/data.csv'', Range = None\<rparr>,
           Fetch ''https://zenodo.org/api/deposit/depositions''
             \<lparr>method = Some ''POST'',
              headers = [(''Authorization'', ''Bearer token''),
                         (''Content-Type'', ''application/json'')],
              body = Some (JsonBody deposition_metadata), timeout = None\<rparr>,
           Fetch ''https://zenodo.org/api/files/b1/data.csv''
             \<lparr>method = Some ''PUT'',
              headers = [(''Authorization'', ''Bearer token''), (''Content-Length'', ''10'')],
              body = Some (BufferBody ''0123456789''), timeout = None\<rparr>]\<rparr>)"
    by (simp add: buffering_handler_def buffering_handler_try_def
        buffering_createDataDeposition_def streamToBuffer_def event_of_def example_world_def
        scripted_network_def whole_object_store_def stream_of_def server_error_response_def
        plain_response_def example_deposition_def example_links_def initial_state_def
        replace_plus_def Let_def s3Client_send_def fetch_def ok_def authorization_def
        template_def unreserved_encodeURIComponent_def toString_def digits.simps digit_char_def)
qed

text \<open>
  The handler of \<^verbatim>\<open>index.ts\<close> on a refused creation: after the read of the object and the
  one POST, it returns status 500 with the status text of the answer, and makes no PUT.
\<close>

lemma handler_provision_failure:
  assumes "Records event = first # rest"
    and "decodeURIComponent w (replace_plus (s3_object_key first)) = Inr objectKey"
    and "lastPathSegment objectKey \<noteq> []"
    and "s3_outcome w (sends s) = Resolves out"
    and "Body out = Readable stream" and "ContentLength out = Some n" and "n \<noteq> 0"
    and "fetch_outcome w (fetches s) = Resolves res" and "\<not> ok res"
  shows "createDataDeposition w s =
           (Inl (Error (''Failed to create deposition: '' @ statusText res)),
            s\<lparr>fetches := fetches s + 1,
              trace := trace s @ [Fetch (template (ZENODO_URL w) @ ''/api/deposit/depositions'')
                \<lparr>method = Some ''POST'',
                 headers = [authorization w, (''Content-Type'', ''application/json'')],
                 body = Some (JsonBody deposition_metadata), timeout = None\<rparr>]\<rparr>)"
    and "handler w event s =
           (Inr \<lparr>statusCode = 500,
                 resultBody = ''Error processing file: Failed to create deposition: ''
                              @ statusText res\<rparr>,
            s\<lparr>fetches := fetches s + 1, sends := sends s + 1,
              trace := trace s
                @ [S3Send \<lparr>Bucket = s3_bucket_name first, Key = objectKey, Range = None\<rparr>,
                   Fetch (template (ZENODO_URL w) @ ''/api/deposit/depositions'')
                     \<lparr>method = Some ''POST'',
                      headers = [authorization w, (''Content-Type'', ''application/json'')],
                      body = Some (JsonBody deposition_metadata), timeout = None\<rparr>]\<rparr>)"
proof -
  show "createDataDeposition w s =
           (Inl (Error (''Failed to create deposition: '' @ statusText res)),
            s\<lparr>fetches := fetches s + 1,
              trace := trace s @ [Fetch (template (ZENODO_URL w) @ ''/api/deposit/depositions'')
                \<lparr>method = Some ''POST'',
                 headers = [authorization w, (''Content-Type'', ''application/json'')],
                 body = Some (JsonBody deposition_metadata), timeout = None\<rparr>]\<rparr>)"
    using assms(8,9) by (simp add: createDataDeposition_def fetchWithRetry_resolves)
  let ?s1 = "s\<lparr>sends := sends s + 1,
      trace := trace s @ [S3Send \<lparr>Bucket = s3_bucket_name first, Key = objectKey, Range = None\<rparr>]\<rparr>"
  have "fetch_outcome w (fetches ?s1) = Resolves res" using assms(8) by simp
  then have "createDataDeposition w ?s1 =
           (Inl (Error (''Failed to create deposition: '' @ statusText res)),
            ?s1\<lparr>fetches := fetches ?s1 + 1,
              trace := trace ?s1 @ [Fetch (template (ZENODO_URL w) @ ''/api/deposit/depositions'')
                \<lparr>method = Some ''POST'',
                 headers = [authorization w, (''Content-Type'', ''application/json'')],
                 body = Some (JsonBody deposition_metadata), timeout = None\<rparr>]\<rparr>)"
    using assms(9) by (simp add: createDataDeposition_def fetchWithRetry_resolves)
  then show "handler w event s =
           (Inr \<lparr>statusCode = 500,
                 resultBody = ''Error processing file: Failed to create deposition: ''
                              @ statusText res\<rparr>,
            s\<lparr>fetches := fetches s + 1, sends := sends s + 1,
              trace := trace s
                @ [S3Send \<lparr>Bucket = s3_bucket_name first, Key = objectKey, Range = None\<rparr>,
                   Fetch (template (ZENODO_URL w) @ ''/api/deposit/depositions'')
                     \<lparr>method = Some ''POST'',
                      headers = [authorization w, (''Content-Type'', ''application/json'')],
                      body = Some (JsonBody deposition_metadata), timeout = None\<rparr>]\<rparr>)"
    using assms(1-7)
    by (simp add: handler_def handler_try_def Let_def last_split_on_slash s3Client_send_def)
qed

end
